theory Spec2Isabelle
  imports Complex_Main "HOL-Library.Log_Nat" "HOL-Library.Code_Target_Numeral"
begin

section \<open>Values, errors and arrays\<close>

text \<open>
  The development embeds the attribution pipeline of
  \<^verbatim>\<open>MolRep/Explainer/explainerExperiments.py\<close> (class \<^verbatim>\<open>ExplainerExperiments\<close>).
  The pipeline is modelled in exact arithmetic: importance scores are real numbers, as the
  data model of the specification has them. The aggregation of bond importance is modelled
  a second time in numpy's float64 arithmetic (section \<open>Float64 arithmetic\<close>), for the
  statements whose truth depends on rounding.

  Every exception the Python code can raise on the modelled paths is a value of
  \<open>error\<close>; a function that can raise returns \<open>error + 'a\<close> with \<open>Inl\<close> the exception.
  Python has one \<^verbatim>\<open>ValueError\<close> class; its argument records which call raised it.
\<close>

datatype cause =
    not_in_list               \<comment> \<open>\<^verbatim>\<open>list.index\<close>: the value is not in the list\<close>
  | need_at_least_one_array   \<comment> \<open>\<^verbatim>\<open>np.concatenate\<close> of an empty sequence\<close>
  | dimensions_mismatch       \<comment> \<open>\<^verbatim>\<open>np.concatenate\<close> of arrays whose shapes do not agree\<close>
  | zero_samples              \<comment> \<open>a scaler's \<^verbatim>\<open>fit\<close> or \<^verbatim>\<open>transform\<close> on an array with no rows\<close>

datatype error =
    IndexError                \<comment> \<open>subscript out of range\<close>
  | AttributeError            \<comment> \<open>method call on \<^verbatim>\<open>None\<close>\<close>
  | RuntimeError              \<comment> \<open>RDKit range error of \<^verbatim>\<open>GetAtomWithIdx\<close>\<close>
  | ValueError cause

text \<open>
  A numpy array of importances: one-dimensional (one score per atom), or two-dimensional
  (one row per atom, one column per class or channel; all rows of one width).
\<close>

datatype ndarray = Arr1 "real list" | Arr2 "real list list"

fun ndim :: "ndarray \<Rightarrow> nat" where
  "ndim (Arr1 xs) = 1"
| "ndim (Arr2 rows) = 2"

text \<open>\<^verbatim>\<open>a.ravel()\<close> and \<^verbatim>\<open>a.reshape(-1, 1)\<close>: the values in row-major order.\<close>

fun ravel :: "ndarray \<Rightarrow> real list" where
  "ravel (Arr1 xs) = xs"
| "ravel (Arr2 rows) = concat rows"

text \<open>
  \<^verbatim>\<open>a[i] += d\<close> for a scalar \<open>d\<close> and an index \<open>i \<ge> 0\<close>: on a two-dimensional array the
  scalar is added to every entry of row \<open>i\<close>; an index past the end raises.
\<close>

fun iadd_at :: "ndarray \<Rightarrow> nat \<Rightarrow> real \<Rightarrow> error + ndarray" where
  "iadd_at (Arr1 xs) i d =
     (if i < length xs then Inr (Arr1 (xs[i := xs ! i + d])) else Inl IndexError)"
| "iadd_at (Arr2 rows) i d =
     (if i < length rows then Inr (Arr2 (rows[i := map (\<lambda>x. x + d) (rows ! i)]))
      else Inl IndexError)"

text \<open>\<^verbatim>\<open>att[:, -1]\<close>: the last column; a one-dimensional array has no second axis.\<close>

fun last_channel :: "ndarray \<Rightarrow> error + ndarray" where
  "last_channel (Arr1 xs) = Inl IndexError"
| "last_channel (Arr2 rows) =
     (if list_ex (\<lambda>r. r = []) rows then Inl IndexError else Inr (Arr1 (map last rows)))"

text \<open>A loop that applies \<open>f\<close> to each element in order and stops at the first exception.\<close>

fun mapE :: "('a \<Rightarrow> error + 'b) \<Rightarrow> 'a list \<Rightarrow> error + 'b list" where
  "mapE f [] = Inr []"
| "mapE f (x # xs) =
     (case f x of
        Inl e \<Rightarrow> Inl e
      | Inr y \<Rightarrow> (case mapE f xs of Inl e \<Rightarrow> Inl e | Inr ys \<Rightarrow> Inr (y # ys)))"

section \<open>Molecules\<close>

text \<open>
  What the code reads from and writes to an RDKit molecule: the number of atoms, the bonds
  in the order of \<^verbatim>\<open>GetBonds()\<close> as pairs \<^verbatim>\<open>(GetBeginAtomIdx(), GetEndAtomIdx())\<close>, and the
  \<^verbatim>\<open>atomNote\<close> property of each atom. \<^verbatim>\<open>Chem.MolFromSmiles\<close> is a parameter of the model, of
  type \<open>string \<Rightarrow> mol option\<close>: it returns \<^verbatim>\<open>None\<close> for a string it cannot parse.
\<close>

record mol =
  GetNumAtoms :: nat
  GetBonds :: "(nat \<times> nat) list"
  atomNote :: "nat \<rightharpoonup> string"

section \<open>Aggregation of bond importance (preprocessing_attributions, lines 134-151)\<close>

text \<open>
  Lines 145-147: the loop over \<^verbatim>\<open>zip(bond_idx, bond_imp)\<close>, adding half of each bond's
  importance to both of its end atoms. The Python updates the caller's array in place; the
  model returns the updated array. An exception leaves the loop at once.
\<close>

fun aggregate :: "ndarray \<Rightarrow> ((nat \<times> nat) \<times> real) list \<Rightarrow> error + ndarray" where
  "aggregate atom_imp [] = Inr atom_imp"
| "aggregate atom_imp (((atom_i_idx, atom_j_idx), b_imp) # rest) =
     (case iadd_at atom_imp atom_i_idx (b_imp / 2) of
        Inl e \<Rightarrow> Inl e
      | Inr atom_imp1 \<Rightarrow>
          (case iadd_at atom_imp1 atom_j_idx (b_imp / 2) of
             Inl e \<Rightarrow> Inl e
           | Inr atom_imp2 \<Rightarrow> aggregate atom_imp2 rest))"

text \<open>
  Lines 135-149, the body of the loop over \<^verbatim>\<open>enumerate(smiles_list)\<close> for one molecule:
  \<open>bond_importance\<close> is \<open>None\<close> when the Python argument is \<^verbatim>\<open>None\<close>.
\<close>

definition aggregate_molecule ::
  "(string \<Rightarrow> mol option) \<Rightarrow> ndarray list \<Rightarrow> real list list option \<Rightarrow> nat \<Rightarrow> string
     \<Rightarrow> error + ndarray" where
  "aggregate_molecule MolFromSmiles atom_importance bond_importance idx smiles =
     (if length atom_importance \<le> idx then Inl IndexError
      else
        (case bond_importance of
           None \<Rightarrow> Inr (atom_importance ! idx)
         | Some bond_imps \<Rightarrow>
             if length bond_imps \<le> idx then Inl IndexError
             else
               (case MolFromSmiles smiles of
                  None \<Rightarrow> Inl AttributeError
                | Some m \<Rightarrow> aggregate (atom_importance ! idx) (zip (GetBonds m) (bond_imps ! idx)))))"

text \<open>Lines 133-149: the loop over the molecules, collecting \<^verbatim>\<open>att_probs\<close> in order.\<close>

fun attributions_loop ::
  "(string \<Rightarrow> mol option) \<Rightarrow> ndarray list \<Rightarrow> real list list option \<Rightarrow> nat \<Rightarrow> string list
     \<Rightarrow> error + ndarray list" where
  "attributions_loop MolFromSmiles atom_importance bond_importance idx [] = Inr []"
| "attributions_loop MolFromSmiles atom_importance bond_importance idx (smiles # rest) =
     (case aggregate_molecule MolFromSmiles atom_importance bond_importance idx smiles of
        Inl e \<Rightarrow> Inl e
      | Inr atom_imp \<Rightarrow>
          (case attributions_loop MolFromSmiles atom_importance bond_importance (Suc idx) rest of
             Inl e \<Rightarrow> Inl e
           | Inr att_probs \<Rightarrow> Inr (atom_imp # att_probs)))"

text \<open>
  Line 151: when the first array has more than one dimension, every array is replaced by
  its last column; otherwise the list is kept as it is.
\<close>

definition select_channel :: "ndarray list \<Rightarrow> error + ndarray list" where
  "select_channel att_probs =
     (case att_probs of
        [] \<Rightarrow> Inr []
      | first # _ \<Rightarrow> if ndim first > 1 then mapE last_channel att_probs else Inr att_probs)"

section \<open>Normalization (normalize_attributions, lines 274-288)\<close>

text \<open>
  \<^verbatim>\<open>np.concatenate\<close> along the first axis: it needs at least one array, all of the same
  number of dimensions and, when two-dimensional, of the same width.
\<close>

fun rows_of :: "ndarray \<Rightarrow> real list list" where
  "rows_of (Arr1 xs) = []"
| "rows_of (Arr2 rows) = rows"

definition same_width :: "real list list \<Rightarrow> bool" where
  "same_width rows = (case rows of [] \<Rightarrow> True | r # rs \<Rightarrow> list_all (\<lambda>r'. length r' = length r) rs)"

definition np_concatenate :: "ndarray list \<Rightarrow> error + ndarray" where
  "np_concatenate arrays =
     (if arrays = [] then Inl (ValueError need_at_least_one_array)
      else if list_all (\<lambda>a. ndim a = 1) arrays then Inr (Arr1 (concat (map ravel arrays)))
      else if list_all (\<lambda>a. ndim a = 2) arrays \<and> same_width (concat (map rows_of arrays))
        then Inr (Arr2 (concat (map rows_of arrays)))
      else Inl (ValueError dimensions_mismatch))"

text \<open>
  Modelled from the spec: the min-max transform \<^verbatim>\<open>normalized = (x - min) / (max - min)\<close> of
  section 4.2, in the way scikit-learn, a library outside the repository, computes it.
  \<^verbatim>\<open>sklearn.preprocessing.MinMaxScaler()\<close> with its defaults (feature range \<open>(0, 1)\<close>, no
  clipping) on a single column, after scikit-learn's \<^verbatim>\<open>partial_fit\<close> and \<^verbatim>\<open>transform\<close>:
  \<^verbatim>\<open>scale_ = 1 / handle_zeros_in_scale(data_max - data_min)\<close>,
  \<^verbatim>\<open>min_ = 0 - data_min * scale_\<close>, and \<^verbatim>\<open>transform\<close> computes \<^verbatim>\<open>x * scale_ + min_\<close>. A zero range
  is replaced by 1. Both \<^verbatim>\<open>fit\<close> and \<^verbatim>\<open>transform\<close> reject an array without rows.
\<close>

record MinMaxScaler =
  data_min_attr :: real   \<comment> \<open>\<^verbatim>\<open>data_min_\<close>\<close>
  data_max_attr :: real   \<comment> \<open>\<^verbatim>\<open>data_max_\<close>\<close>
  scale_attr :: real      \<comment> \<open>\<^verbatim>\<open>scale_\<close>\<close>
  min_attr :: real        \<comment> \<open>\<^verbatim>\<open>min_\<close>\<close>

definition handle_zeros_in_scale :: "real \<Rightarrow> real" where
  "handle_zeros_in_scale scale = (if scale = 0 then 1 else scale)"

definition MinMaxScaler_fit :: "real list \<Rightarrow> error + MinMaxScaler" where
  "MinMaxScaler_fit X =
     (case X of
        [] \<Rightarrow> Inl (ValueError zero_samples)
      | x # xs \<Rightarrow>
          let data_min = fold min xs x;
              data_max = fold max xs x;
              data_range = data_max - data_min;
              scale = 1 / handle_zeros_in_scale data_range
          in Inr \<lparr>data_min_attr = data_min, data_max_attr = data_max,
                  scale_attr = scale, min_attr = 0 - data_min * scale\<rparr>)"

definition MinMaxScaler_transform :: "MinMaxScaler \<Rightarrow> real list \<Rightarrow> error + real list" where
  "MinMaxScaler_transform s X =
     (if X = [] then Inl (ValueError zero_samples)
      else Inr (map (\<lambda>x. x * scale_attr s + min_attr s) X))"

text \<open>
  A Python value in a boolean position: \<^verbatim>\<open>positive\<close> is declared with the default \<^verbatim>\<open>False\<close>
  and receives a string from the call at line 153. A string is true when it is not empty.
\<close>

datatype pyval = PyBool bool | PyStr string

fun truthy :: "pyval \<Rightarrow> bool" where
  "truthy (PyBool b) = b"
| "truthy (PyStr s) = (s \<noteq> [])"

text \<open>
  A fitted normalizer is its \<^verbatim>\<open>transform\<close>. \<^verbatim>\<open>sklearn.preprocessing.QuantileTransformer\<close>
  is a parameter of the model: given the pooled column it either raises or returns the
  fitted transform.
\<close>

type_synonym fitted = "real list \<Rightarrow> error + real list"

definition fit_MinMaxScaler :: "real list \<Rightarrow> error + fitted" where
  "fit_MinMaxScaler X =
     (case MinMaxScaler_fit X of Inl e \<Rightarrow> Inl e | Inr s \<Rightarrow> Inr (MinMaxScaler_transform s))"

definition normalize_attributions ::
  "(real list \<Rightarrow> error + fitted) \<Rightarrow> ndarray list \<Rightarrow> pyval \<Rightarrow> string \<Rightarrow> error + real list list" where
  "normalize_attributions QuantileTransformer att_list positive normalizer =
     (case np_concatenate att_list of
        Inl e \<Rightarrow> Inl e
      | Inr all_values \<Rightarrow>
          let all_values = (if truthy positive then filter (\<lambda>x. x > 0) (ravel all_values)
                            else ravel all_values)
          in (case (if normalizer = ''QuantileTransformer'' then QuantileTransformer all_values
                    else fit_MinMaxScaler all_values) of
                Inl e \<Rightarrow> Inl e
              | Inr transform \<Rightarrow> mapE (\<lambda>att. transform (ravel att)) att_list))"

text \<open>
  Lines 132-154. The call at line 153 passes \<^verbatim>\<open>normalizer\<close> as the second positional
  argument of \<^verbatim>\<open>normalize_attributions(self, att_list, positive=False, normalizer=...)\<close>, that
  is, as \<^verbatim>\<open>positive\<close>; the callee's \<^verbatim>\<open>normalizer\<close> keeps its default.
\<close>

definition preprocessing_attributions ::
  "(string \<Rightarrow> mol option) \<Rightarrow> (real list \<Rightarrow> error + fitted) \<Rightarrow> string list \<Rightarrow> ndarray list
     \<Rightarrow> real list list option \<Rightarrow> string \<Rightarrow> error + real list list" where
  "preprocessing_attributions MolFromSmiles QuantileTransformer smiles_list atom_importance
       bond_importance normalizer =
     (case attributions_loop MolFromSmiles atom_importance bond_importance 0 smiles_list of
        Inl e \<Rightarrow> Inl e
      | Inr att_probs \<Rightarrow>
          (case select_channel att_probs of
             Inl e \<Rightarrow> Inl e
           | Inr att_probs \<Rightarrow>
               normalize_attributions QuantileTransformer att_probs (PyStr normalizer)
                 ''MinMaxScaler''))"

section \<open>Comparative evaluation (evaluate_cliffs, lines 242-272)\<close>

text \<open>
  A ground-truth pair record of \<^verbatim>\<open>dataset.get_attribution_truth()\<close>, with the four keys
  the code reads. The label vectors are kept abstract.
\<close>

record 'a pair_record =
  SMILES_1 :: string
  SMILES_2 :: string
  attribution_1 :: 'a
  attribution_2 :: 'a

text \<open>\<^verbatim>\<open>xs.index(x)\<close>: the first position of \<open>x\<close>, or \<^verbatim>\<open>ValueError\<close>.\<close>

definition list_index :: "'a list \<Rightarrow> 'a \<Rightarrow> error + nat" where
  "list_index xs x =
     (if x \<in> set xs then Inr (length (takeWhile (\<lambda>y. y \<noteq> x) xs))
      else Inl (ValueError not_in_list))"

text \<open>\<^verbatim>\<open>xs[i]\<close> for \<open>i \<ge> 0\<close>.\<close>

definition getitem :: "'a list \<Rightarrow> nat \<Rightarrow> error + 'a" where
  "getitem xs i = (if i < length xs then Inr (xs ! i) else Inl IndexError)"

text \<open>Lines 247-262: the loop over the pair records, building both flat lists.\<close>

fun align_pairs ::
  "string list \<Rightarrow> real list list \<Rightarrow> 'a pair_record list \<Rightarrow> error + (real list list \<times> 'a list)" where
  "align_pairs smiles_list att_probs [] = Inr ([], [])"
| "align_pairs smiles_list att_probs (p # rest) =
     (case list_index smiles_list (SMILES_1 p) of
        Inl e \<Rightarrow> Inl e
      | Inr idx_1 \<Rightarrow>
     (case list_index smiles_list (SMILES_2 p) of
        Inl e \<Rightarrow> Inl e
      | Inr idx_2 \<Rightarrow>
     (case getitem att_probs idx_1 of
        Inl e \<Rightarrow> Inl e
      | Inr probs_1 \<Rightarrow>
     (case getitem att_probs idx_2 of
        Inl e \<Rightarrow> Inl e
      | Inr probs_2 \<Rightarrow>
     (case align_pairs smiles_list att_probs rest of
        Inl e \<Rightarrow> Inl e
      | Inr (att_probs_reset, att_true) \<Rightarrow>
          Inr (probs_1 # probs_2 # att_probs_reset,
               attribution_1 p # attribution_2 p # att_true))))))"

text \<open>Line 265: \<^verbatim>\<open>1 if att>0.5 else -1 if att<(-0.5) else 0\<close>.\<close>

definition att_binary :: "real \<Rightarrow> int" where
  "att_binary att = (if att > 0.5 then 1 else if att < - 0.5 then - 1 else 0)"

text \<open>
  The functions of \<^verbatim>\<open>MolRep.Explainer.Metrics.attribution_metric\<close> and \<^verbatim>\<open>np.nanmean\<close> are
  parameters of the model; each metric may raise.
\<close>

record ('a, 's, 'm, 't) att_metrics =
  get_optimal_threshold :: "'a list \<Rightarrow> real list list \<Rightarrow> error + 't"
  attribution_f1 :: "'a list \<Rightarrow> int list list \<Rightarrow> error + 's"
  attribution_accuracy :: "'a list \<Rightarrow> int list list \<Rightarrow> error + 's"
  nanmean :: "'s \<Rightarrow> 'm"

text \<open>
  Lines 242-272. \<open>smiles_list\<close> and \<open>att_true_pair\<close> are what \<^verbatim>\<open>dataset.get_smiles_list()\<close>
  and \<^verbatim>\<open>dataset.get_attribution_truth()\<close> return. The ordered dictionary \<^verbatim>\<open>stats\<close> is the
  list of its items.
\<close>

definition evaluate_cliffs ::
  "(string \<Rightarrow> mol option) \<Rightarrow> (real list \<Rightarrow> error + fitted) \<Rightarrow> ('a, 's, 'm, 't) att_metrics
     \<Rightarrow> string list \<Rightarrow> 'a pair_record list \<Rightarrow> ndarray list \<Rightarrow> real list list option
     \<Rightarrow> error + ((string \<times> 'm) list \<times> 't)" where
  "evaluate_cliffs MolFromSmiles QuantileTransformer att_metrics smiles_list att_true_pair
       atom_importance bond_importance =
     (case preprocessing_attributions MolFromSmiles QuantileTransformer smiles_list
             atom_importance bond_importance ''MinMaxScaler'' of
        Inl e \<Rightarrow> Inl e
      | Inr att_probs \<Rightarrow>
     (case align_pairs smiles_list att_probs att_true_pair of
        Inl e \<Rightarrow> Inl e
      | Inr (att_probs_reset, att_true) \<Rightarrow>
     (case get_optimal_threshold att_metrics att_true att_probs_reset of
        Inl e \<Rightarrow> Inl e
      | Inr opt_threshold \<Rightarrow>
     (case attribution_f1 att_metrics att_true (map (map att_binary) att_probs_reset) of
        Inl e \<Rightarrow> Inl e
      | Inr f1 \<Rightarrow>
     (case attribution_accuracy att_metrics att_true (map (map att_binary) att_probs_reset) of
        Inl e \<Rightarrow> Inl e
      | Inr acc \<Rightarrow>
          Inr ([(''ATT F1'', nanmean att_metrics f1), (''ATT ACC'', nanmean att_metrics acc)],
               opt_threshold))))))"

section \<open>Coloring (determine_atom_col, determine_bond_col, lines 156-214)\<close>

type_synonym colour = "nat \<times> nat \<times> nat"

definition GREEN_COL :: colour where
  "GREEN_COL = (0, 1, 0)"

definition RED_COL :: colour where
  "RED_COL = (1, 0, 0)"

text \<open>
  \<^verbatim>\<open>"%.3f" % v\<close> over the reals: an optional minus sign, the integer part, a point and
  three decimals, of the magnitude rounded to thousandths, a tie going to the even
  neighbour.
\<close>

definition round_half_even :: "real \<Rightarrow> nat" where
  "round_half_even x =
     (let n = nat \<lfloor>x\<rfloor>; r = x - real n
      in if r < 1 / 2 then n else if 1 / 2 < r then n + 1 else if even n then n else n + 1)"

definition digit :: "nat \<Rightarrow> char" where
  "digit d = ''0123456789'' ! d"

fun str_nat :: "nat \<Rightarrow> string" where
  "str_nat n = (if n < 10 then [digit n] else str_nat (n div 10) @ [digit (n mod 10)])"

definition format_3f :: "real \<Rightarrow> string" where
  "format_3f v =
     (let m = round_half_even (\<bar>v\<bar> * 1000)
      in (if v < 0 then ''-'' else []) @ str_nat (m div 1000) @ ''.'' @
         [digit (m div 100 mod 10), digit (m div 10 mod 10), digit (m mod 10)])"

text \<open>\<^verbatim>\<open>cp.GetAtomWithIdx(idx).SetProp("atomNote", s)\<close>: RDKit rejects an index past the atoms.\<close>

definition SetProp_atomNote :: "mol \<Rightarrow> nat \<Rightarrow> string \<Rightarrow> error + mol" where
  "SetProp_atomNote cp idx s =
     (if idx < GetNumAtoms cp then Inr (cp\<lparr>atomNote := (atomNote cp)(idx \<mapsto> s)\<rparr>)
      else Inl RuntimeError)"

text \<open>Lines 183-189: the loop over \<^verbatim>\<open>enumerate(atom_importance)\<close>.\<close>

fun atom_col_loop ::
  "real \<Rightarrow> bool \<Rightarrow> nat \<Rightarrow> real list \<Rightarrow> (nat \<rightharpoonup> colour) \<times> mol \<Rightarrow> error + ((nat \<rightharpoonup> colour) \<times> mol)" where
  "atom_col_loop eps set_weights idx [] (atom_col, cp) = Inr (atom_col, cp)"
| "atom_col_loop eps set_weights idx (v # rest) (atom_col, cp) =
     (let atom_col1 = (if v > eps then atom_col(idx \<mapsto> RED_COL) else atom_col)
      in if v < - eps then
           (if set_weights then
              (case SetProp_atomNote cp idx (format_3f v) of
                 Inl e \<Rightarrow> Inl e
               | Inr cp1 \<Rightarrow>
                   atom_col_loop eps set_weights (Suc idx) rest (atom_col1(idx \<mapsto> RED_COL), cp1))
            else atom_col_loop eps set_weights (Suc idx) rest (atom_col1(idx \<mapsto> RED_COL), cp))
         else atom_col_loop eps set_weights (Suc idx) rest (atom_col1, cp))"

definition determine_atom_col ::
  "mol \<Rightarrow> real list \<Rightarrow> real \<Rightarrow> bool \<Rightarrow> error + ((nat \<rightharpoonup> colour) \<times> mol)" where
  "determine_atom_col cp atom_importance eps set_weights =
     atom_col_loop eps set_weights 0 atom_importance (Map.empty, cp)"

text \<open>Lines 209-213: the loop over \<^verbatim>\<open>enumerate(mol.GetBonds())\<close>.\<close>

fun bond_col_loop ::
  "(nat \<rightharpoonup> colour) \<Rightarrow> nat \<Rightarrow> (nat \<times> nat) list \<Rightarrow> (nat \<rightharpoonup> colour) \<Rightarrow> (nat \<rightharpoonup> colour)" where
  "bond_col_loop atom_col idx [] bond_col = bond_col"
| "bond_col_loop atom_col idx ((atom_i_idx, atom_j_idx) # rest) bond_col =
     bond_col_loop atom_col (Suc idx) rest
       (case atom_col atom_i_idx of
          None \<Rightarrow> bond_col
        | Some col_i \<Rightarrow>
            (case atom_col atom_j_idx of
               None \<Rightarrow> bond_col
             | Some col_j \<Rightarrow> if col_i = col_j then bond_col(idx \<mapsto> col_i) else bond_col))"

definition determine_bond_col :: "(nat \<rightharpoonup> colour) \<Rightarrow> mol \<Rightarrow> (nat \<rightharpoonup> colour)" where
  "determine_bond_col atom_col m = bond_col_loop atom_col 0 (GetBonds m) Map.empty"

section \<open>Float64 arithmetic\<close>

text \<open>
  A float64 value (IEEE 754 binary64, the \<^verbatim>\<open>dtype\<close> of numpy's default floating-point
  arrays): a finite value, given by the real number it denotes, an infinity or a NaN. The
  two zeros are not distinguished; they are equal under \<^verbatim>\<open>==\<close>.
\<close>

datatype float64 = Finite real | PosInf | NegInf | NaN

fun is_finite :: "float64 \<Rightarrow> bool" where
  "is_finite (Finite x) = True"
| "is_finite y = False"

fun val :: "float64 \<Rightarrow> real" where
  "val (Finite x) = x"
| "val y = 0"

text \<open>
  Rounding to float64. \<open>exponent x\<close> is the binary exponent \<open>e\<close> of a non-zero \<open>x\<close>, with
  \<open>pow2 e \<le> \<bar>x\<bar> < pow2 (e + 1)\<close>; \<open>ulp x\<close> is the spacing of the float64 values around
  \<open>x\<close>: 52 fraction bits below the exponent, the exponent no smaller than \<open>-1022\<close> (below
  that the values are subnormal, with the spacing \<open>pow2 (-1074)\<close>). \<open>nearest x\<close> is the multiple of
  \<open>ulp x\<close> nearest to \<open>x\<close>, a tie going to the even multiple (the rounding mode of numpy and
  Python), and \<open>round64\<close> gives an infinity when that value is out of range. \<open>round64\<close> is
  also how Python reads a decimal literal such as \<^verbatim>\<open>0.2\<close>.
\<close>

definition pow2 :: "int \<Rightarrow> real" where
  "pow2 k = (if 0 \<le> k then 2 ^ nat k else 1 / 2 ^ nat (- k))"

definition exponent :: "real \<Rightarrow> int" where
  "exponent x =
     (if 1 \<le> \<bar>x\<bar> then int (floorlog 2 (nat \<lfloor>\<bar>x\<bar>\<rfloor>)) - 1
      else - int (floorlog 2 (nat (\<lceil>1 / \<bar>x\<bar>\<rceil> - 1))))"

definition ulp :: "real \<Rightarrow> real" where
  "ulp x = pow2 (max (exponent x) (- 1022) - 52)"

definition nearest :: "real \<Rightarrow> real" where
  "nearest x = sgn x * real (round_half_even (\<bar>x\<bar> / ulp x)) * ulp x"

definition round64 :: "real \<Rightarrow> float64" where
  "round64 x =
     (let r = nearest x
      in if \<bar>r\<bar> < 2 ^ 1024 then Finite r else if 0 < x then PosInf else NegInf)"

text \<open>
  \<^verbatim>\<open>x + y\<close> and \<^verbatim>\<open>x / 2\<close> on float64 values: the exact result, rounded; the special values
  as IEEE 754 has them. Neither raises.
\<close>

fun fadd :: "float64 \<Rightarrow> float64 \<Rightarrow> float64" where
  "fadd (Finite a) (Finite b) = round64 (a + b)"
| "fadd NaN y = NaN"
| "fadd x NaN = NaN"
| "fadd PosInf NegInf = NaN"
| "fadd NegInf PosInf = NaN"
| "fadd PosInf y = PosInf"
| "fadd x PosInf = PosInf"
| "fadd NegInf y = NegInf"
| "fadd x NegInf = NegInf"

fun halve :: "float64 \<Rightarrow> float64" where
  "halve (Finite a) = round64 (a / 2)"
| "halve y = y"

text \<open>
  Lines 135-149 in float64 arithmetic: the definitions \<open>iadd_at\<close>, \<open>aggregate\<close> and
  \<open>aggregate_molecule\<close> above, with \<^verbatim>\<open>+=\<close> and \<^verbatim>\<open>/ 2\<close> rounding as numpy does. The update of
  line 146 and 147 is in place, on the array object that the caller's list holds at \<open>idx\<close>:
  \<open>aggregate_molecule64\<close> returns the aggregated vector together with the caller's list
  after the call (the arrays of the list being distinct objects).
\<close>

datatype ndarray64 = FArr1 "float64 list" | FArr2 "float64 list list"

fun iadd_at64 :: "ndarray64 \<Rightarrow> nat \<Rightarrow> float64 \<Rightarrow> error + ndarray64" where
  "iadd_at64 (FArr1 xs) i d =
     (if i < length xs then Inr (FArr1 (xs[i := fadd (xs ! i) d])) else Inl IndexError)"
| "iadd_at64 (FArr2 rows) i d =
     (if i < length rows then Inr (FArr2 (rows[i := map (\<lambda>x. fadd x d) (rows ! i)]))
      else Inl IndexError)"

fun aggregate64 :: "ndarray64 \<Rightarrow> ((nat \<times> nat) \<times> float64) list \<Rightarrow> error + ndarray64" where
  "aggregate64 atom_imp [] = Inr atom_imp"
| "aggregate64 atom_imp (((atom_i_idx, atom_j_idx), b_imp) # rest) =
     (case iadd_at64 atom_imp atom_i_idx (halve b_imp) of
        Inl e \<Rightarrow> Inl e
      | Inr atom_imp1 \<Rightarrow>
          (case iadd_at64 atom_imp1 atom_j_idx (halve b_imp) of
             Inl e \<Rightarrow> Inl e
           | Inr atom_imp2 \<Rightarrow> aggregate64 atom_imp2 rest))"

definition aggregate_molecule64 ::
  "(string \<Rightarrow> mol option) \<Rightarrow> ndarray64 list \<Rightarrow> float64 list list option \<Rightarrow> nat \<Rightarrow> string
     \<Rightarrow> error + (ndarray64 \<times> ndarray64 list)" where
  "aggregate_molecule64 MolFromSmiles atom_importance bond_importance idx smiles =
     (if length atom_importance \<le> idx then Inl IndexError
      else
        (case bond_importance of
           None \<Rightarrow> Inr (atom_importance ! idx, atom_importance)
         | Some bond_imps \<Rightarrow>
             if length bond_imps \<le> idx then Inl IndexError
             else
               (case MolFromSmiles smiles of
                  None \<Rightarrow> Inl AttributeError
                | Some m \<Rightarrow>
                    (case aggregate64 (atom_importance ! idx)
                            (zip (GetBonds m) (bond_imps ! idx)) of
                       Inl e \<Rightarrow> Inl e
                     | Inr atom_imp \<Rightarrow> Inr (atom_imp, atom_importance[idx := atom_imp])))))"

section \<open>Example data\<close>

text \<open>
  Propane, \<^verbatim>\<open>CCC\<close>: three atoms and the bonds \<open>(0, 1)\<close> and \<open>(1, 2)\<close>, the molecule of the
  specification's end-to-end scenario; a chemistry collaborator that knows this molecule
  only; and a stand-in for the quantile transformer, the empirical distribution function
  of the pooled values.
\<close>

definition propane :: mol where
  "propane = \<lparr>GetNumAtoms = 3, GetBonds = [(0, 1), (1, 2)], atomNote = Map.empty\<rparr>"

definition ex_MolFromSmiles :: "string \<Rightarrow> mol option" where
  "ex_MolFromSmiles smiles = (if smiles = ''CCC'' then Some propane else None)"

definition ex_transform :: "real list \<Rightarrow> real list \<Rightarrow> error + real list" where
  "ex_transform X Y =
     (if Y = [] then Inl (ValueError zero_samples)
      else Inr (map (\<lambda>y. real (length (filter (\<lambda>x. x \<le> y) X)) / real (length X)) Y))"

definition ex_QuantileTransformer :: "real list \<Rightarrow> error + fitted" where
  "ex_QuantileTransformer X =
     (if X = [] then Inl (ValueError zero_samples) else Inr (ex_transform X))"

text \<open>
  Stand-ins for the metric functions, which hand back what they are given: the threshold is
  a constant, the F1 slot holds the binarized predictions and the accuracy slot the
  ground-truth labels.
\<close>

definition ex_att_metrics :: "(int list, int list list, int list list, real) att_metrics" where
  "ex_att_metrics =
     \<lparr>get_optimal_threshold = (\<lambda>att_true att_probs. Inr (1 / 2)),
      attribution_f1 = (\<lambda>att_true att_binary. Inr att_binary),
      attribution_accuracy = (\<lambda>att_true att_binary. Inr att_true),
      nanmean = (\<lambda>scores. scores)\<rparr>"

section \<open>Properties of the aggregation\<close>

lemma sum_list_iadd: "i < length xs \<Longrightarrow> sum_list (xs[i := xs ! i + d]) = sum_list xs + (d::real)"
  by (induction xs arbitrary: i) (auto split: nat.splits)



section \<open>Properties of the normalization\<close>

lemmas pipeline_defs =
  preprocessing_attributions_def aggregate_molecule_def select_channel_def
  normalize_attributions_def np_concatenate_def fit_MinMaxScaler_def MinMaxScaler_fit_def
  MinMaxScaler_transform_def handle_zeros_in_scale_def ex_MolFromSmiles_def propane_def
  ex_QuantileTransformer_def ex_transform_def same_width_def





text \<open>
  Claim C1 at the call of line 153. Propane with the atom importances \<open>[-1, 1, 3]\<close> and no
  bond importance: the pooled minimum is \<open>-1\<close> and the pooled maximum \<open>3\<close>, so min-max
  normalization should return \<open>[0, 1/2, 1]\<close>. The pipeline returns \<open>[-1, 0, 1]\<close>: the string
  \<^verbatim>\<open>'MinMaxScaler'\<close> arrives as \<^verbatim>\<open>positive\<close>, the scaler is fitted on \<open>[1, 3]\<close> only, the pooled
  minimum is mapped to \<open>-1\<close> and leaves the unit interval.
\<close>

theorem pipeline_output_outside_unit_interval:
  "preprocessing_attributions ex_MolFromSmiles ex_QuantileTransformer [''CCC'']
     [Arr1 [- 1, 1, 3]] None ''MinMaxScaler'' = Inr [[- 1, 0, 1]]"
  by (simp add: pipeline_defs)

text \<open>
  Claim C2 fails for the empty string, which is false as a condition: with it the scaler is
  fitted on all pooled values, and the output differs from the one for \<^verbatim>\<open>'MinMaxScaler'\<close>.
\<close>

theorem empty_normalizer_counterexample:
  "preprocessing_attributions ex_MolFromSmiles ex_QuantileTransformer [''CCC'']
     [Arr1 [- 2, 2, 4]] None '''' = Inr [[0, 2 / 3, 1]] \<and>
   preprocessing_attributions ex_MolFromSmiles ex_QuantileTransformer [''CCC'']
     [Arr1 [- 2, 2, 4]] None ''MinMaxScaler'' = Inr [[- 2, 0, 1]]"
  by (simp add: pipeline_defs)

lemma normalize_minmax_unfold:
  "normalizer \<noteq> ''QuantileTransformer'' \<Longrightarrow>
   normalize_attributions Q att_list positive normalizer =
     (case np_concatenate att_list of
        Inl e \<Rightarrow> Inl e
      | Inr all_values \<Rightarrow>
          (case MinMaxScaler_fit (if truthy positive then filter (\<lambda>x. 0 < x) (ravel all_values)
                                  else ravel all_values) of
             Inl e \<Rightarrow> Inl e
           | Inr s \<Rightarrow> mapE (\<lambda>att. MinMaxScaler_transform s (ravel att)) att_list))"
  by (simp add: normalize_attributions_def fit_MinMaxScaler_def Let_def split: sum.splits)

text \<open>
  Claim C8 fails on the code: a name that is not \<^verbatim>\<open>'QuantileTransformer'\<close> takes the
  \<^verbatim>\<open>else\<close> branch of line 281, and an output is produced.
\<close>

theorem unrecognized_normalizer_counterexample:
  "normalize_attributions ex_QuantileTransformer [Arr1 [- 1, 1, 3]] (PyBool False)
     ''RobustScaler'' = Inr [[0, 1 / 2, 1]]"
  by (simp add: pipeline_defs)

text \<open>
  Claim C8, amended. No strategy name is rejected: every name other than
  \<^verbatim>\<open>'QuantileTransformer'\<close> selects min-max normalization, with the result of
  \<^verbatim>\<open>'MinMaxScaler'\<close>, whatever the quantile transformer is.
\<close>

theorem unrecognized_normalizer_is_minmax:
  assumes "normalizer \<noteq> ''QuantileTransformer''"
  shows "normalize_attributions Q att_list positive normalizer
           = normalize_attributions Q' att_list positive ''MinMaxScaler''"
  using assms by (simp add: normalize_minmax_unfold)

theorem unrecognized_normalizer_is_minmax_witness:
  "''RobustScaler'' \<noteq> ''QuantileTransformer'' \<and>
   normalize_attributions ex_QuantileTransformer [Arr1 [- 1, 1, 3]] (PyBool False) ''RobustScaler''
     = normalize_attributions ex_QuantileTransformer [Arr1 [- 1, 1, 3]] (PyBool False)
         ''MinMaxScaler''"
  using unrecognized_normalizer_is_minmax
    [of "''RobustScaler''" ex_QuantileTransformer "[Arr1 [- 1, 1, 3]]" "PyBool False"
        ex_QuantileTransformer]
  by simp

text \<open>
  Claim C2, amended. For fixed inputs and any two non-empty values of the \<^verbatim>\<open>normalizer\<close>
  argument, \<^verbatim>\<open>preprocessing_attributions\<close> returns the same output, whatever the quantile
  transformer is: the argument is bound to \<^verbatim>\<open>positive\<close>, so the transform is a
  \<^verbatim>\<open>MinMaxScaler\<close> fitted on the strictly positive pooled values only.
\<close>

theorem normalizer_argument_ignored:
  assumes "normalizer \<noteq> []" and "normalizer' \<noteq> []"
  shows "preprocessing_attributions MolFromSmiles Q smiles_list atom_importance bond_importance
             normalizer
           = preprocessing_attributions MolFromSmiles Q' smiles_list atom_importance
               bond_importance normalizer' \<and>
         preprocessing_attributions MolFromSmiles Q smiles_list atom_importance bond_importance
             normalizer
           = (case attributions_loop MolFromSmiles atom_importance bond_importance 0 smiles_list of
                Inl e \<Rightarrow> Inl e
              | Inr att_probs \<Rightarrow>
             (case select_channel att_probs of
                Inl e \<Rightarrow> Inl e
              | Inr att_probs \<Rightarrow>
             (case np_concatenate att_probs of
                Inl e \<Rightarrow> Inl e
              | Inr all_values \<Rightarrow>
             (case MinMaxScaler_fit (filter (\<lambda>x. 0 < x) (ravel all_values)) of
                Inl e \<Rightarrow> Inl e
              | Inr s \<Rightarrow> mapE (\<lambda>att. MinMaxScaler_transform s (ravel att)) att_probs))))"
  using assms
  by (simp add: preprocessing_attributions_def normalize_minmax_unfold split: sum.splits)

theorem normalizer_argument_ignored_witness:
  "''MinMaxScaler'' \<noteq> [] \<and> ''QuantileTransformer'' \<noteq> [] \<and>
   preprocessing_attributions ex_MolFromSmiles ex_QuantileTransformer [''CCC'']
     [Arr1 [- 2, 2, 4]] None ''MinMaxScaler''
   = preprocessing_attributions ex_MolFromSmiles ex_QuantileTransformer [''CCC'']
     [Arr1 [- 2, 2, 4]] None ''QuantileTransformer''"
  using normalizer_argument_ignored
    [of "''MinMaxScaler''" "''QuantileTransformer''" ex_MolFromSmiles ex_QuantileTransformer
        "[''CCC'']" "[Arr1 [- 2, 2, 4]]" None ex_QuantileTransformer]
  by simp

lemma mapE_Inr_iff: "mapE f xs = Inr ys \<longleftrightarrow> list_all2 (\<lambda>x y. f x = Inr y) xs ys"
proof (induction xs arbitrary: ys)
  case Nil
  then show ?case by auto
next
  case (Cons x xs)
  show ?case
  proof (cases "f x")
    case (Inl e)
    then show ?thesis by (auto simp: list_all2_Cons1)
  next
    case (Inr y)
    then show ?thesis
      using Cons.IH by (cases "mapE f xs") (auto simp: list_all2_Cons1)
  qed
qed

lemma mapE_Inr_map: "mapE (\<lambda>x. Inr (g x)) xs = Inr (map g xs)"
  by (induction xs) simp_all

lemma concat_rows_of: "list_all (\<lambda>a. ndim a = 2) arrs \<Longrightarrow>
    concat (concat (map rows_of arrs)) = concat (map ravel arrs)"
proof (induction arrs)
  case Nil
  then show ?case by simp
next
  case (Cons a arrs)
  then show ?case by (cases a) simp_all
qed

lemma np_concatenate_ravel:
  "np_concatenate arrs = Inr a \<Longrightarrow> ravel a = concat (map ravel arrs) \<and> arrs \<noteq> []"
  by (auto simp: np_concatenate_def concat_rows_of split: if_splits)

lemma fold_min_Min: "fold min xs (x::real) = Min (insert x (set xs))"
  using Min.set_eq_fold[of x xs] by simp

lemma fold_max_Max: "fold max xs (x::real) = Max (insert x (set xs))"
  using Max.set_eq_fold[of x xs] by simp

lemma MinMaxScaler_fit_Inr:
  "MinMaxScaler_fit X = Inr s \<Longrightarrow>
     X \<noteq> [] \<and> scale_attr s = 1 / handle_zeros_in_scale (Max (set X) - Min (set X)) \<and>
     min_attr s = 0 - Min (set X) * scale_attr s"
  by (cases X) (auto simp: MinMaxScaler_fit_def Let_def fold_min_Min fold_max_Max)

lemma MinMaxScaler_value:
  assumes "MinMaxScaler_fit X = Inr s" and "Max (set X) \<noteq> Min (set X)"
  shows "x * scale_attr s + min_attr s = (x - Min (set X)) / (Max (set X) - Min (set X))"
proof -
  from MinMaxScaler_fit_Inr[OF assms(1)] assms(2)
  have sc: "scale_attr s = 1 / (Max (set X) - Min (set X))"
    and mn: "min_attr s = 0 - Min (set X) * scale_attr s"
    by (simp_all add: handle_zeros_in_scale_def)
  show ?thesis
    unfolding mn unfolding sc by (simp add: diff_divide_distrib)
qed

text \<open>
  In exact arithmetic, called directly with a false \<^verbatim>\<open>positive\<close> and a min-max strategy name,
  the normalization is the min-max rescaling: on a pool with distinct maximum and minimum
  every output value
  is \<open>(x - min) / (max - min)\<close>, hence in the unit interval, the pooled maximum goes to 1
  and the pooled minimum to 0.
\<close>

lemma minmax_direct_unit_interval:
  fixes att_list :: "ndarray list"
  defines "pool \<equiv> concat (map ravel att_list)"
  assumes name: "normalizer \<noteq> ''QuantileTransformer''"
    and all_values: "\<not> truthy positive"
    and ok: "normalize_attributions Q att_list positive normalizer = Inr new_att"
    and range: "Max (set pool) \<noteq> Min (set pool)"
  shows "new_att = map (\<lambda>att. map (\<lambda>x. (x - Min (set pool)) / (Max (set pool) - Min (set pool)))
                                 (ravel att)) att_list"
    and "\<forall>v\<in>set (concat new_att). 0 \<le> v \<and> v \<le> 1"
    and "Max (set pool) \<in> set pool" and "Min (set pool) \<in> set pool"
    and "(Max (set pool) - Min (set pool)) / (Max (set pool) - Min (set pool)) = 1"
    and "(Min (set pool) - Min (set pool)) / (Max (set pool) - Min (set pool)) = 0"
proof -
  let ?lo = "Min (set pool)" and ?hi = "Max (set pool)"
  let ?g = "\<lambda>x. (x - ?lo) / (?hi - ?lo)"
  from ok name all_values obtain a s where
    a: "np_concatenate att_list = Inr a" and
    s: "MinMaxScaler_fit (ravel a) = Inr s" and
    out: "mapE (\<lambda>att. MinMaxScaler_transform s (ravel att)) att_list = Inr new_att"
    by (auto simp: normalize_minmax_unfold split: sum.splits)
  from np_concatenate_ravel[OF a] have pool: "ravel a = pool" by (simp add: pool_def)
  from MinMaxScaler_fit_Inr[OF s] pool have ne: "pool \<noteq> []" by simp
  have val: "x * scale_attr s + min_attr s = ?g x" for x
    using MinMaxScaler_value[OF s] range pool by simp
  from out have l2: "list_all2 (\<lambda>att y. MinMaxScaler_transform s (ravel att) = Inr y) att_list new_att"
    by (simp add: mapE_Inr_iff)
  have "list_all2 (\<lambda>att y. y = map ?g (ravel att)) att_list new_att"
    using l2 by (rule list_all2_mono) (auto simp: MinMaxScaler_transform_def val split: if_splits)
  then show eq: "new_att = map (\<lambda>att. map ?g (ravel att)) att_list"
    by (induction rule: list_all2_induct) simp_all
  have cc: "concat new_att = map ?g pool"
    unfolding eq pool_def by (simp add: map_concat comp_def)
  from ne show hi_in: "?hi \<in> set pool" and lo_in: "?lo \<in> set pool" by simp_all
  from hi_in have "?lo \<le> ?hi" by simp
  with range have lt: "?lo < ?hi" by simp
  show "\<forall>v\<in>set (concat new_att). 0 \<le> v \<and> v \<le> 1"
  proof
    fix v assume "v \<in> set (concat new_att)"
    then obtain x where x: "x \<in> set pool" and v: "v = ?g x" by (auto simp: cc)
    from x have "?lo \<le> x" "x \<le> ?hi" by simp_all
    with lt show "0 \<le> v \<and> v \<le> 1" by (simp add: v)
  qed
  from lt show "(?hi - ?lo) / (?hi - ?lo) = 1" by simp
  show "(?lo - ?lo) / (?hi - ?lo) = 0" by simp
qed

section \<open>Properties of the comparative evaluation\<close>

lemma mapE_length: "mapE f xs = Inr ys \<Longrightarrow> length ys = length xs"
  by (simp add: mapE_Inr_iff list_all2_lengthD[symmetric])

lemma attributions_loop_length:
  "attributions_loop M ai bi idx smiles_list = Inr att_probs \<Longrightarrow>
     length att_probs = length smiles_list"
  by (induction smiles_list arbitrary: idx att_probs) (auto split: sum.splits)

lemma select_channel_length: "select_channel xs = Inr ys \<Longrightarrow> length ys = length xs"
  unfolding select_channel_def
  by (cases xs) (auto dest: mapE_length simp del: mapE.simps split: if_splits)

lemma normalize_attributions_length:
  "normalize_attributions Q att_list positive normalizer = Inr new_att \<Longrightarrow>
     length new_att = length att_list"
  by (auto simp: normalize_attributions_def Let_def dest: mapE_length split: sum.splits)

lemma preprocessing_attributions_length:
  "preprocessing_attributions M Q smiles_list ai bi normalizer = Inr att_probs \<Longrightarrow>
     length att_probs = length smiles_list"
  by (auto simp: preprocessing_attributions_def split: sum.splits
      dest!: attributions_loop_length select_channel_length normalize_attributions_length)

lemma first_position:
  "x \<in> set xs \<Longrightarrow>
     length (takeWhile (\<lambda>y. y \<noteq> x) xs) < length xs \<and>
     xs ! length (takeWhile (\<lambda>y. y \<noteq> x) xs) = x"
  by (induction xs) auto

lemma before_first_position:
  assumes "j < length (takeWhile (\<lambda>y. y \<noteq> x) xs)"
  shows "xs ! j \<noteq> x"
proof -
  from assms have "takeWhile (\<lambda>y. y \<noteq> x) xs ! j \<in> set (takeWhile (\<lambda>y. y \<noteq> x) xs)"
    by (rule nth_mem)
  then have "takeWhile (\<lambda>y. y \<noteq> x) xs ! j \<noteq> x"
    by (auto dest: set_takeWhileD)
  with assms show ?thesis by (simp add: takeWhile_nth)
qed

lemma list_index_position:
  assumes "x \<in> set xs"
  shows "list_index xs x = Inr (length (takeWhile (\<lambda>y. y \<noteq> x) xs))"
    and "length (takeWhile (\<lambda>y. y \<noteq> x) xs) < length xs"
  using assms first_position[of x xs] by (simp_all add: list_index_def)

lemma align_pairs_present:
  assumes "length att_probs = length smiles_list"
    and "\<forall>p\<in>set pairs. SMILES_1 p \<in> set smiles_list \<and> SMILES_2 p \<in> set smiles_list"
  shows "align_pairs smiles_list att_probs pairs =
     Inr (concat (map (\<lambda>p. [att_probs ! length (takeWhile (\<lambda>y. y \<noteq> SMILES_1 p) smiles_list),
                             att_probs ! length (takeWhile (\<lambda>y. y \<noteq> SMILES_2 p) smiles_list)])
                   pairs),
          concat (map (\<lambda>p. [attribution_1 p, attribution_2 p]) pairs))"
  using assms(2)
proof (induction pairs)
  case Nil
  then show ?case by simp
next
  case (Cons p pairs)
  then show ?case
    using list_index_position(1,2)[of "SMILES_1 p" smiles_list]
      list_index_position(1,2)[of "SMILES_2 p" smiles_list] assms(1)
    by (simp add: getitem_def)
qed

lemma align_pairs_absent:
  assumes "length att_probs = length smiles_list"
    and "\<exists>p\<in>set pairs. SMILES_1 p \<notin> set smiles_list \<or> SMILES_2 p \<notin> set smiles_list"
  shows "align_pairs smiles_list att_probs pairs = Inl (ValueError not_in_list)"
  using assms(2)
proof (induction pairs)
  case Nil
  then show ?case by simp
next
  case (Cons p pairs)
  show ?case
  proof (cases "SMILES_1 p \<in> set smiles_list \<and> SMILES_2 p \<in> set smiles_list")
    case True
    with Cons.prems have "\<exists>p\<in>set pairs. SMILES_1 p \<notin> set smiles_list \<or> SMILES_2 p \<notin> set smiles_list"
      by auto
    from Cons.IH[OF this] True show ?thesis
      using list_index_position(1,2)[of "SMILES_1 p" smiles_list]
        list_index_position(1,2)[of "SMILES_2 p" smiles_list] assms(1)
      by (simp add: getitem_def)
  next
    case False
    then show ?thesis
      using list_index_position(1)[of "SMILES_1 p" smiles_list]
      by (auto simp: list_index_def)
  qed
qed

text \<open>
  Claim C6. When the preprocessing has returned \<open>att_probs\<close> and every identifier of every
  pair record is in the molecule list, each identifier is resolved to its first position
  in the list, the loop of lines 249-262 returns the predicted vectors and the labels in
  pair order (molecule 1, then molecule 2, pair after pair), and the metrics receive the
  predicted vectors binarized three ways: above 0.5 to 1, below -0.5 to -1, otherwise 0.
\<close>

theorem cliff_alignment_and_binarization:
  fixes att_true_pair :: "'a pair_record list"
    and att_metrics :: "('a, 's, 'm, 't) att_metrics"
  assumes pre: "preprocessing_attributions MolFromSmiles Q smiles_list atom_importance
                  bond_importance ''MinMaxScaler'' = Inr att_probs"
    and present: "\<forall>p\<in>set att_true_pair.
                    SMILES_1 p \<in> set smiles_list \<and> SMILES_2 p \<in> set smiles_list"
  defines "position \<equiv> \<lambda>s. length (takeWhile (\<lambda>y. y \<noteq> s) smiles_list)"
  defines "att_probs_reset \<equiv>
     concat (map (\<lambda>p. [att_probs ! position (SMILES_1 p), att_probs ! position (SMILES_2 p)])
       att_true_pair)"
  defines "att_true \<equiv> concat (map (\<lambda>p. [attribution_1 p, attribution_2 p]) att_true_pair)"
  defines "three_way \<equiv> \<lambda>v :: real. if v > 0.5 then 1 else if v < - 0.5 then - 1 else (0 :: int)"
  shows "(\<forall>s\<in>set smiles_list.
            position s < length att_probs \<and> smiles_list ! position s = s \<and>
            (\<forall>j<position s. smiles_list ! j \<noteq> s)) \<and>
         align_pairs smiles_list att_probs att_true_pair = Inr (att_probs_reset, att_true) \<and>
         evaluate_cliffs MolFromSmiles Q att_metrics smiles_list att_true_pair atom_importance
             bond_importance
           = (case get_optimal_threshold att_metrics att_true att_probs_reset of
                Inl e \<Rightarrow> Inl e
              | Inr opt_threshold \<Rightarrow>
             (case attribution_f1 att_metrics att_true (map (map three_way) att_probs_reset) of
                Inl e \<Rightarrow> Inl e
              | Inr f1 \<Rightarrow>
             (case attribution_accuracy att_metrics att_true
                     (map (map three_way) att_probs_reset) of
                Inl e \<Rightarrow> Inl e
              | Inr acc \<Rightarrow>
                  Inr ([(''ATT F1'', nanmean att_metrics f1),
                        (''ATT ACC'', nanmean att_metrics acc)], opt_threshold))))"
proof -
  have len: "length att_probs = length smiles_list"
    using pre by (rule preprocessing_attributions_length)
  have pos: "\<forall>s\<in>set smiles_list.
            position s < length att_probs \<and> smiles_list ! position s = s \<and>
            (\<forall>j<position s. smiles_list ! j \<noteq> s)"
    using first_position[of _ smiles_list] before_first_position[of _ _ smiles_list] len
    by (auto simp: position_def)
  have al: "align_pairs smiles_list att_probs att_true_pair = Inr (att_probs_reset, att_true)"
    unfolding att_probs_reset_def att_true_def position_def
    using len present by (rule align_pairs_present)
  have bin: "att_binary = three_way"
    by (rule ext) (simp add: att_binary_def three_way_def)
  have ev: "evaluate_cliffs MolFromSmiles Q att_metrics smiles_list att_true_pair atom_importance
             bond_importance
           = (case get_optimal_threshold att_metrics att_true att_probs_reset of
                Inl e \<Rightarrow> Inl e
              | Inr opt_threshold \<Rightarrow>
             (case attribution_f1 att_metrics att_true (map (map three_way) att_probs_reset) of
                Inl e \<Rightarrow> Inl e
              | Inr f1 \<Rightarrow>
             (case attribution_accuracy att_metrics att_true
                     (map (map three_way) att_probs_reset) of
                Inl e \<Rightarrow> Inl e
              | Inr acc \<Rightarrow>
                  Inr ([(''ATT F1'', nanmean att_metrics f1),
                        (''ATT ACC'', nanmean att_metrics acc)], opt_threshold))))"
    unfolding bin[symmetric] by (simp add: evaluate_cliffs_def pre al)
  from pos al ev show ?thesis by (intro conjI)
qed

theorem cliff_alignment_and_binarization_witness:
  "preprocessing_attributions ex_MolFromSmiles ex_QuantileTransformer [''CCC'', ''CC'']
     [Arr1 [- 2, 2, 4], Arr1 [1, 3]] None ''MinMaxScaler'' = Inr [[- 1, 1 / 3, 1], [0, 2 / 3]] \<and>
   list_all (\<lambda>p. SMILES_1 p \<in> set [''CCC'', ''CC''] \<and> SMILES_2 p \<in> set [''CCC'', ''CC''])
     [\<lparr>SMILES_1 = ''CC'', SMILES_2 = ''CCC'',
       attribution_1 = [0, 1 :: int], attribution_2 = [- 1, 0, 1]\<rparr>] \<and>
   evaluate_cliffs ex_MolFromSmiles ex_QuantileTransformer ex_att_metrics [''CCC'', ''CC'']
     [\<lparr>SMILES_1 = ''CC'', SMILES_2 = ''CCC'',
       attribution_1 = [0, 1], attribution_2 = [- 1, 0, 1]\<rparr>]
     [Arr1 [- 2, 2, 4], Arr1 [1, 3]] None
   = Inr ([(''ATT F1'', [[0, 1], [- 1, 0, 1]]), (''ATT ACC'', [[0, 1], [- 1, 0, 1]])], 1 / 2)"
proof -
  have pre: "preprocessing_attributions ex_MolFromSmiles ex_QuantileTransformer [''CCC'', ''CC'']
     [Arr1 [- 2, 2, 4], Arr1 [1, 3]] None ''MinMaxScaler'' = Inr [[- 1, 1 / 3, 1], [0, 2 / 3]]"
    by (simp add: pipeline_defs)
  have present: "\<forall>p\<in>set [\<lparr>SMILES_1 = ''CC'', SMILES_2 = ''CCC'',
       attribution_1 = [0, 1 :: int], attribution_2 = [- 1, 0, 1]\<rparr>].
        SMILES_1 p \<in> set [''CCC'', ''CC''] \<and> SMILES_2 p \<in> set [''CCC'', ''CC'']"
    by simp
  show ?thesis
    using cliff_alignment_and_binarization[OF pre present, of ex_att_metrics] pre
    by (simp add: ex_att_metrics_def)
qed

text \<open>
  Claim C7. When some pair record names an identifier that is not in the molecule list,
  \<^verbatim>\<open>evaluate_cliffs\<close> raises: no statistics are returned, and when the preprocessing has
  succeeded the exception is the \<^verbatim>\<open>ValueError\<close> of \<^verbatim>\<open>list.index\<close>.
\<close>

theorem cliff_lookup_failure:
  fixes att_true_pair :: "'a pair_record list"
    and att_metrics :: "('a, 's, 'm, 't) att_metrics"
  assumes absent: "\<exists>p\<in>set att_true_pair.
                     SMILES_1 p \<notin> set smiles_list \<or> SMILES_2 p \<notin> set smiles_list"
  shows "(\<exists>e. evaluate_cliffs MolFromSmiles Q att_metrics smiles_list att_true_pair
                atom_importance bond_importance = Inl e) \<and>
         (\<forall>att_probs.
            preprocessing_attributions MolFromSmiles Q smiles_list atom_importance
              bond_importance ''MinMaxScaler'' = Inr att_probs \<longrightarrow>
            align_pairs smiles_list att_probs att_true_pair = Inl (ValueError not_in_list) \<and>
            evaluate_cliffs MolFromSmiles Q att_metrics smiles_list att_true_pair
              atom_importance bond_importance = Inl (ValueError not_in_list))"
proof (cases "preprocessing_attributions MolFromSmiles Q smiles_list atom_importance
              bond_importance ''MinMaxScaler''")
  case (Inl e)
  then show ?thesis by (simp add: evaluate_cliffs_def)
next
  case (Inr att_probs)
  then have "length att_probs = length smiles_list"
    by (rule preprocessing_attributions_length)
  from align_pairs_absent[OF this absent] Inr show ?thesis
    by (simp add: evaluate_cliffs_def)
qed

theorem cliff_lookup_failure_witness:
  "list_ex (\<lambda>p. SMILES_1 p \<notin> set [''CCC'', ''CC''] \<or> SMILES_2 p \<notin> set [''CCC'', ''CC''])
     [\<lparr>SMILES_1 = ''CC'', SMILES_2 = ''CCC'', attribution_1 = [0, 1 :: int],
       attribution_2 = [- 1, 0, 1]\<rparr>,
      \<lparr>SMILES_1 = ''CCC'', SMILES_2 = ''CO'', attribution_1 = [1, 0, 0],
       attribution_2 = [0, 1]\<rparr>] \<and>
   preprocessing_attributions ex_MolFromSmiles ex_QuantileTransformer [''CCC'', ''CC'']
     [Arr1 [- 2, 2, 4], Arr1 [1, 3]] None ''MinMaxScaler'' = Inr [[- 1, 1 / 3, 1], [0, 2 / 3]] \<and>
   evaluate_cliffs ex_MolFromSmiles ex_QuantileTransformer ex_att_metrics [''CCC'', ''CC'']
     [\<lparr>SMILES_1 = ''CC'', SMILES_2 = ''CCC'', attribution_1 = [0, 1],
       attribution_2 = [- 1, 0, 1]\<rparr>,
      \<lparr>SMILES_1 = ''CCC'', SMILES_2 = ''CO'', attribution_1 = [1, 0, 0],
       attribution_2 = [0, 1]\<rparr>]
     [Arr1 [- 2, 2, 4], Arr1 [1, 3]] None
   = Inl (ValueError not_in_list)"
proof -
  have pre: "preprocessing_attributions ex_MolFromSmiles ex_QuantileTransformer [''CCC'', ''CC'']
     [Arr1 [- 2, 2, 4], Arr1 [1, 3]] None ''MinMaxScaler'' = Inr [[- 1, 1 / 3, 1], [0, 2 / 3]]"
    by (simp add: pipeline_defs)
  have absent: "\<exists>p\<in>set [\<lparr>SMILES_1 = ''CC'', SMILES_2 = ''CCC'', attribution_1 = [0, 1 :: int],
       attribution_2 = [- 1, 0, 1]\<rparr>,
      \<lparr>SMILES_1 = ''CCC'', SMILES_2 = ''CO'', attribution_1 = [1, 0, 0],
       attribution_2 = [0, 1]\<rparr>].
      SMILES_1 p \<notin> set [''CCC'', ''CC''] \<or> SMILES_2 p \<notin> set [''CCC'', ''CC'']"
    by simp
  show ?thesis
    using cliff_lookup_failure[OF absent, of ex_MolFromSmiles ex_QuantileTransformer
        ex_att_metrics "[Arr1 [- 2, 2, 4], Arr1 [1, 3]]" None] pre
    by simp
qed

section \<open>Properties of the coloring\<close>

lemma digit_decimal: "d < 10 \<Longrightarrow> digit d \<in> set ''0123456789''"
  unfolding digit_def by (rule nth_mem) simp

lemma str_nat_decimal: "str_nat n \<noteq> [] \<and> set (str_nat n) \<subseteq> set ''0123456789''"
proof (induction n rule: str_nat.induct)
  case (1 n)
  show ?case
  proof (cases "n < 10")
    case True
    then show ?thesis
      using digit_decimal[of n] by (subst (1 2) str_nat.simps) simp
  next
    case False
    then show ?thesis
      using "1.IH" digit_decimal[of "n mod 10"] by (subst (1 2) str_nat.simps) simp
  qed
qed

lemma format_3f_shape:
  "\<exists>whole d1 d2 d3.
     format_3f v = (if v < 0 then ''-'' else []) @ whole @ ''.'' @ [d1, d2, d3] \<and>
     whole \<noteq> [] \<and> set (whole @ [d1, d2, d3]) \<subseteq> set ''0123456789''"
proof -
  define m where "m = round_half_even (\<bar>v\<bar> * 1000)"
  have "format_3f v = (if v < 0 then ''-'' else []) @ str_nat (m div 1000) @ ''.'' @
         [digit (m div 100 mod 10), digit (m div 10 mod 10), digit (m mod 10)]"
    by (simp add: format_3f_def m_def Let_def)
  moreover have "str_nat (m div 1000) \<noteq> []"
    using str_nat_decimal by blast
  moreover have "set (str_nat (m div 1000) @
      [digit (m div 100 mod 10), digit (m div 10 mod 10), digit (m mod 10)])
      \<subseteq> set ''0123456789''"
    using str_nat_decimal[of "m div 1000"] digit_decimal[of "m div 100 mod 10"]
      digit_decimal[of "m div 10 mod 10"] digit_decimal[of "m mod 10"]
    by simp
  ultimately show ?thesis by blast
qed

lemma round_half_even_near: "0 \<le> x \<Longrightarrow> \<bar>real (round_half_even x) - x\<bar> \<le> 1 / 2"
  unfolding round_half_even_def Let_def by (auto simp: abs_if) linarith+

lemma atom_col_loop_result:
  assumes "set_weights \<Longrightarrow> idx + length vs \<le> GetNumAtoms cp"
  shows "atom_col_loop eps set_weights idx vs (atom_col, cp) =
     Inr (\<lambda>k. if idx \<le> k \<and> k < idx + length vs \<and>
                   (eps < vs ! (k - idx) \<or> vs ! (k - idx) < - eps)
                then Some RED_COL else atom_col k,
          cp\<lparr>atomNote :=
               (\<lambda>k. if set_weights \<and> idx \<le> k \<and> k < idx + length vs \<and> vs ! (k - idx) < - eps
                     then Some (format_3f (vs ! (k - idx))) else atomNote cp k)\<rparr>)"
  using assms
proof (induction vs arbitrary: idx atom_col cp)
  case Nil
  have none: "(idx \<le> k \<and> k < idx \<and> P) = False" for k P
    by auto
  show ?case by (simp add: none)
next
  case (Cons v vs)
  define atom_col1 where
    "atom_col1 = (if eps < v \<or> v < - eps then atom_col(idx \<mapsto> RED_COL) else atom_col)"
  define cp1 where
    "cp1 = (if v < - eps \<and> set_weights then cp\<lparr>atomNote := (atomNote cp)(idx \<mapsto> format_3f v)\<rparr>
            else cp)"
  have step: "atom_col_loop eps set_weights idx (v # vs) (atom_col, cp) =
      atom_col_loop eps set_weights (Suc idx) vs (atom_col1, cp1)"
    using Cons.prems by (auto simp: atom_col1_def cp1_def SetProp_atomNote_def Let_def)
  have n1: "GetNumAtoms cp1 = GetNumAtoms cp" by (simp add: cp1_def)
  have bound: "set_weights \<Longrightarrow> Suc idx + length vs \<le> GetNumAtoms cp1"
    using Cons.prems n1 by simp
  have nth: "(v # vs) ! (k - idx) = vs ! (k - Suc idx)" if "Suc idx \<le> k" for k
    using that by (simp add: nth_Cons')
  have cols: "(\<lambda>k. if Suc idx \<le> k \<and> k < Suc idx + length vs \<and>
                   (eps < vs ! (k - Suc idx) \<or> vs ! (k - Suc idx) < - eps)
                then Some RED_COL else atom_col1 k)
      = (\<lambda>k. if idx \<le> k \<and> k < idx + length (v # vs) \<and>
                   (eps < (v # vs) ! (k - idx) \<or> (v # vs) ! (k - idx) < - eps)
                then Some RED_COL else atom_col k)"
  proof (rule ext)
    fix k
    show "(if Suc idx \<le> k \<and> k < Suc idx + length vs \<and>
                   (eps < vs ! (k - Suc idx) \<or> vs ! (k - Suc idx) < - eps)
                then Some RED_COL else atom_col1 k)
      = (if idx \<le> k \<and> k < idx + length (v # vs) \<and>
                   (eps < (v # vs) ! (k - idx) \<or> (v # vs) ! (k - idx) < - eps)
                then Some RED_COL else atom_col k)"
      using nth[of k] by (cases "k = idx") (auto simp: atom_col1_def)
  qed
  have annots: "cp1\<lparr>atomNote :=
               (\<lambda>k. if set_weights \<and> Suc idx \<le> k \<and> k < Suc idx + length vs \<and>
                        vs ! (k - Suc idx) < - eps
                     then Some (format_3f (vs ! (k - Suc idx))) else atomNote cp1 k)\<rparr>
      = cp\<lparr>atomNote :=
               (\<lambda>k. if set_weights \<and> idx \<le> k \<and> k < idx + length (v # vs) \<and>
                        (v # vs) ! (k - idx) < - eps
                     then Some (format_3f ((v # vs) ! (k - idx))) else atomNote cp k)\<rparr>"
  proof -
    have "(\<lambda>k. if set_weights \<and> Suc idx \<le> k \<and> k < Suc idx + length vs \<and>
                        vs ! (k - Suc idx) < - eps
                     then Some (format_3f (vs ! (k - Suc idx))) else atomNote cp1 k)
        = (\<lambda>k. if set_weights \<and> idx \<le> k \<and> k < idx + length (v # vs) \<and>
                        (v # vs) ! (k - idx) < - eps
                     then Some (format_3f ((v # vs) ! (k - idx))) else atomNote cp k)"
    proof (rule ext)
      fix k
      show "(if set_weights \<and> Suc idx \<le> k \<and> k < Suc idx + length vs \<and>
                        vs ! (k - Suc idx) < - eps
                     then Some (format_3f (vs ! (k - Suc idx))) else atomNote cp1 k)
        = (if set_weights \<and> idx \<le> k \<and> k < idx + length (v # vs) \<and>
                        (v # vs) ! (k - idx) < - eps
                     then Some (format_3f ((v # vs) ! (k - idx))) else atomNote cp k)"
        using nth[of k] by (cases "k = idx") (auto simp: cp1_def)
    qed
    then show ?thesis by (simp add: cp1_def)
  qed
  have "atom_col_loop eps set_weights (Suc idx) vs (atom_col1, cp1) =
     Inr (\<lambda>k. if Suc idx \<le> k \<and> k < Suc idx + length vs \<and>
                   (eps < vs ! (k - Suc idx) \<or> vs ! (k - Suc idx) < - eps)
                then Some RED_COL else atom_col1 k,
          cp1\<lparr>atomNote :=
               (\<lambda>k. if set_weights \<and> Suc idx \<le> k \<and> k < Suc idx + length vs \<and>
                        vs ! (k - Suc idx) < - eps
                     then Some (format_3f (vs ! (k - Suc idx))) else atomNote cp1 k)\<rparr>)"
    using bound by (rule Cons.IH)
  then show ?case
    unfolding step cols annots .
qed

text \<open>
  Claim C9 fails when \<^verbatim>\<open>set_weights\<close> is false: the atom below \<open>-eps\<close> is colored, and no
  annotation is written.
\<close>

theorem annotation_gated_counterexample:
  "(- 1 :: real) < - (1 / 10) \<and>
   (case determine_atom_col propane [- 1, 0, 1] (1 / 10) False of
      Inl e \<Rightarrow> False
    | Inr (atom_col, cp') \<Rightarrow> atom_col 0 = Some RED_COL \<and> atomNote cp' 0 = None)"
  by (simp add: determine_atom_col_def propane_def)

text \<open>
  Claim C9, amended. For an importance vector and a threshold \<open>eps\<close> (the vector no longer
  than the molecule has atoms when \<^verbatim>\<open>set_weights\<close> is true), \<^verbatim>\<open>determine_atom_col\<close> returns a
  mapping in which the index of a value above \<open>eps\<close> has the color \<^verbatim>\<open>RED_COL\<close>, the index of
  a value below \<open>-eps\<close> has the same color and, when \<^verbatim>\<open>set_weights\<close> is true, the annotation
  \<^verbatim>\<open>"%.3f" % v\<close> (an optional sign, digits, a point and three digits), and the index of a
  value of magnitude at most \<open>eps\<close> is absent. The mapping is a function of the vector
  and \<open>eps\<close> alone; with \<^verbatim>\<open>set_weights\<close> false the molecule is left as it was.
\<close>

theorem atom_colouring:
  assumes "set_weights \<longrightarrow> length atom_importance \<le> GetNumAtoms cp"
  shows "\<exists>atom_col cp'.
     determine_atom_col cp atom_importance eps set_weights = Inr (atom_col, cp') \<and>
     (\<forall>idx<length atom_importance.
        (eps < atom_importance ! idx \<longrightarrow> atom_col idx = Some RED_COL) \<and>
        (atom_importance ! idx < - eps \<longrightarrow>
           atom_col idx = Some RED_COL \<and>
           (set_weights \<longrightarrow>
              atomNote cp' idx = Some (format_3f (atom_importance ! idx)) \<and>
              (\<exists>whole d1 d2 d3.
                 format_3f (atom_importance ! idx) =
                   (if atom_importance ! idx < 0 then ''-'' else []) @ whole @ ''.'' @ [d1, d2, d3] \<and>
                 whole \<noteq> [] \<and> set (whole @ [d1, d2, d3]) \<subseteq> set ''0123456789''))) \<and>
        (\<bar>atom_importance ! idx\<bar> \<le> eps \<longrightarrow> atom_col idx = None)) \<and>
     (\<forall>idx\<ge>length atom_importance. atom_col idx = None) \<and>
     atom_col = (\<lambda>idx. if idx < length atom_importance \<and>
                            (eps < atom_importance ! idx \<or> atom_importance ! idx < - eps)
                         then Some RED_COL else None) \<and>
     (\<not> set_weights \<longrightarrow> cp' = cp)"
proof -
  define atom_col where
    "atom_col = (\<lambda>idx. if idx < length atom_importance \<and>
                            (eps < atom_importance ! idx \<or> atom_importance ! idx < - eps)
                         then Some RED_COL else (None :: colour option))"
  define cp' where
    "cp' = cp\<lparr>atomNote :=
              (\<lambda>k. if set_weights \<and> k < length atom_importance \<and> atom_importance ! k < - eps
                    then Some (format_3f (atom_importance ! k)) else atomNote cp k)\<rparr>"
  have res: "determine_atom_col cp atom_importance eps set_weights = Inr (atom_col, cp')"
    using assms
      atom_col_loop_result[where set_weights = set_weights and idx = 0 and vs = atom_importance
        and cp = cp and eps = eps and atom_col = Map.empty]
    by (simp add: determine_atom_col_def atom_col_def cp'_def cong: if_cong)
  have cols: "\<forall>idx<length atom_importance.
        (eps < atom_importance ! idx \<longrightarrow> atom_col idx = Some RED_COL) \<and>
        (atom_importance ! idx < - eps \<longrightarrow>
           atom_col idx = Some RED_COL \<and>
           (set_weights \<longrightarrow>
              atomNote cp' idx = Some (format_3f (atom_importance ! idx)) \<and>
              (\<exists>whole d1 d2 d3.
                 format_3f (atom_importance ! idx) =
                   (if atom_importance ! idx < 0 then ''-'' else []) @ whole @ ''.'' @ [d1, d2, d3] \<and>
                 whole \<noteq> [] \<and> set (whole @ [d1, d2, d3]) \<subseteq> set ''0123456789''))) \<and>
        (\<bar>atom_importance ! idx\<bar> \<le> eps \<longrightarrow> atom_col idx = None)"
    using format_3f_shape by (auto simp: atom_col_def cp'_def)
  have outside: "\<forall>idx\<ge>length atom_importance. atom_col idx = None"
    by (simp add: atom_col_def)
  have same: "\<not> set_weights \<longrightarrow> cp' = cp"
    by (simp add: cp'_def)
  show ?thesis
    by (rule exI[of _ atom_col], rule exI[of _ cp'])
      (intro conjI res cols outside atom_col_def same)
qed

theorem atom_colouring_witness:
  "length [- 1, 0, 1 / 2 :: real] \<le> GetNumAtoms propane \<and>
   (\<exists>atom_col cp'.
      determine_atom_col propane [- 1, 0, 1 / 2] (1 / 10) True = Inr (atom_col, cp') \<and>
      atom_col 0 = Some RED_COL \<and> atom_col 1 = None \<and> atom_col 2 = Some RED_COL \<and>
      atomNote cp' 0 = Some ''-1.000'')"
proof -
  have fits: "True \<longrightarrow> length [- 1, 0, 1 / 2 :: real] \<le> GetNumAtoms propane"
    by (simp add: propane_def)
  have fmt: "format_3f (- 1) = ''-1.000''"
    by (simp add: format_3f_def round_half_even_def digit_def)
  from atom_colouring[OF fits, where eps = "1 / 10"] obtain atom_col cp' where
    res: "determine_atom_col propane [- 1, 0, 1 / 2] (1 / 10) True = Inr (atom_col, cp')"
    and cols: "\<forall>idx<length [- 1, 0, 1 / 2 :: real].
        (1 / 10 < [- 1, 0, 1 / 2 :: real] ! idx \<longrightarrow> atom_col idx = Some RED_COL) \<and>
        ([- 1, 0, 1 / 2 :: real] ! idx < - (1 / 10) \<longrightarrow>
           atom_col idx = Some RED_COL \<and>
           (True \<longrightarrow> atomNote cp' idx = Some (format_3f ([- 1, 0, 1 / 2] ! idx)) \<and>
              (\<exists>whole d1 d2 d3.
                 format_3f ([- 1, 0, 1 / 2] ! idx) =
                   (if [- 1, 0, 1 / 2 :: real] ! idx < 0 then ''-'' else []) @ whole @ ''.'' @ [d1, d2, d3] \<and>
                 whole \<noteq> [] \<and> set (whole @ [d1, d2, d3]) \<subseteq> set ''0123456789''))) \<and>
        (\<bar>[- 1, 0, 1 / 2 :: real] ! idx\<bar> \<le> 1 / 10 \<longrightarrow> atom_col idx = None)"
    by blast
  from cols[rule_format, of 0] cols[rule_format, of 1] cols[rule_format, of 2]
  have "atom_col 0 = Some RED_COL" "atom_col 1 = None" "atom_col 2 = Some RED_COL"
    "atomNote cp' 0 = Some ''-1.000''"
    by (simp_all add: fmt)
  with res fits show ?thesis by simp
qed

lemma bond_col_loop_lookup:
  "bond_col_loop atom_col idx bs bond_col k =
     (if idx \<le> k \<and> k < idx + length bs then
        (case bs ! (k - idx) of
           (i, j) \<Rightarrow>
             (case atom_col i of
                None \<Rightarrow> bond_col k
              | Some col_i \<Rightarrow>
                  (case atom_col j of
                     None \<Rightarrow> bond_col k
                   | Some col_j \<Rightarrow> if col_i = col_j then Some col_i else bond_col k)))
      else bond_col k)"
proof (induction bs arbitrary: idx bond_col)
  case Nil
  then show ?case by auto
next
  case (Cons b bs)
  obtain i j where b: "b = (i, j)" by (cases b)
  show ?case
    unfolding b bond_col_loop.simps Cons.IH
    by (cases "k = idx") (auto simp: nth_Cons' split: option.splits prod.splits)
qed

text \<open>
  Claim C10. The bond at position \<open>idx\<close> of the molecule's bond list is in the bond color
  mapping exactly when both of its end atoms are in the atom color mapping with the same
  color, and then it has that color; no other index is in the mapping.
\<close>

theorem bond_colouring:
  assumes "idx < length (GetBonds m)"
    and "GetBonds m ! idx = (atom_i_idx, atom_j_idx)"
  shows "(determine_bond_col atom_col m idx \<noteq> None \<longleftrightarrow>
            (\<exists>c. atom_col atom_i_idx = Some c \<and> atom_col atom_j_idx = Some c)) \<and>
         (\<forall>c. atom_col atom_i_idx = Some c \<and> atom_col atom_j_idx = Some c \<longrightarrow>
              determine_bond_col atom_col m idx = Some c) \<and>
         (\<forall>k\<ge>length (GetBonds m). determine_bond_col atom_col m k = None)"
  using assms
  by (auto simp: determine_bond_col_def bond_col_loop_lookup split: option.splits)

theorem bond_colouring_witness:
  "(0 :: nat) < length (GetBonds propane) \<and> GetBonds propane ! 0 = (0, 1) \<and>
   determine_bond_col [0 \<mapsto> RED_COL, 1 \<mapsto> RED_COL] propane 0 = Some RED_COL \<and>
   determine_bond_col [0 \<mapsto> RED_COL, 1 \<mapsto> RED_COL] propane 2 = None"
proof -
  have bond: "(0 :: nat) < length (GetBonds propane)" "GetBonds propane ! 0 = (0, 1)"
    by (simp_all add: propane_def)
  from bond_colouring[OF bond, of "[0 \<mapsto> RED_COL, 1 \<mapsto> RED_COL]"]
  have "determine_bond_col [0 \<mapsto> RED_COL, 1 \<mapsto> RED_COL] propane 0 = Some RED_COL"
    and "determine_bond_col [0 \<mapsto> RED_COL, 1 \<mapsto> RED_COL] propane 2 = None"
    by (simp_all del: split_paired_Ex split_paired_All add: propane_def)
  with bond show ?thesis by simp
qed

section \<open>Properties of the aggregation in float64 arithmetic\<close>

text \<open>
  The rounding error of \<open>nearest\<close>: at most half a unit in the last place, hence at most
  \<open>(\<bar>x\<bar> + 1 / 2 ^ 1022) / 2 ^ 53\<close>, for every real \<open>x\<close>.
\<close>

lemma pow2_powr: "pow2 k = 2 powr (real_of_int k)"
  by (simp add: pow2_def powr_real_of_int inverse_eq_divide)

lemma pow2_pos: "0 < pow2 k"
  by (simp add: pow2_def)

lemma pow2_add: "pow2 (a + b) = pow2 a * pow2 b"
  by (simp add: pow2_powr powr_add)

lemma pow2_mono: "a \<le> b \<Longrightarrow> pow2 a \<le> pow2 b"
  by (simp add: pow2_powr)

lemma pow2_of_nat: "pow2 (int n) = 2 ^ n"
  by (simp add: pow2_def)

lemma pow2_neg_nat: "pow2 (- int n) = 1 / 2 ^ n"
  by (simp add: pow2_powr powr_minus_divide powr_realpow)

lemma exponent_lower:
  assumes "x \<noteq> 0"
  shows "pow2 (exponent x) \<le> \<bar>x\<bar>"
proof (cases "1 \<le> \<bar>x\<bar>")
  case True
  define n where "n = nat \<lfloor>\<bar>x\<bar>\<rfloor>"
  from True have pos: "0 < n" by (simp add: n_def)
  from floorlog_bounds[OF pos, of 2] have "2 ^ (floorlog 2 n - 1) \<le> n" by simp
  then have "(2::real) ^ (floorlog 2 n - 1) \<le> real n"
    by (metis of_nat_le_iff of_nat_numeral of_nat_power)
  also have "real n \<le> \<bar>x\<bar>"
    using True by (simp add: n_def)
  finally have le: "(2::real) ^ (floorlog 2 n - 1) \<le> \<bar>x\<bar>" .
  have "0 < floorlog 2 n"
    using pos by (simp add: floorlog_def)
  then have "exponent x = int (floorlog 2 n - 1)"
    using True by (simp add: exponent_def n_def)
  with le show ?thesis by (simp add: pow2_of_nat)
next
  case False
  define a where "a = \<bar>x\<bar>"
  from False assms have a: "0 < a" "a < 1" by (simp_all add: a_def)
  define m where "m = nat (\<lceil>1 / a\<rceil> - 1)"
  define L where "L = floorlog 2 m"
  from a have big: "1 < 1 / a" by simp
  then have "2 \<le> \<lceil>1 / a\<rceil>" by linarith
  then have pos: "0 < m" by (simp add: m_def)
  from floorlog_bounds[OF pos, of 2] have "m < 2 ^ L" by (simp add: L_def)
  then have "m + 1 \<le> 2 ^ L" by simp
  then have "real (m + 1) \<le> 2 ^ L"
    by (metis of_nat_le_iff of_nat_numeral of_nat_power)
  moreover have "1 / a \<le> real (m + 1)"
    using \<open>2 \<le> \<lceil>1 / a\<rceil>\<close> by (simp add: m_def) linarith
  ultimately have "1 / a \<le> 2 ^ L" by simp
  then have "1 / 2 ^ L \<le> a"
    using a by (simp add: field_simps)
  moreover have "exponent x = - int L"
    using False by (simp add: exponent_def L_def m_def a_def)
  ultimately show ?thesis by (simp add: pow2_neg_nat a_def)
qed

lemma ulp_pos: "0 < ulp x"
  by (simp add: ulp_def pow2_pos)

lemma nearest_zero: "nearest 0 = 0"
  by (simp add: nearest_def)

lemma nearest_half_ulp: "\<bar>nearest x - x\<bar> \<le> ulp x / 2"
proof -
  define z where "z = \<bar>x\<bar> / ulp x"
  have z: "0 \<le> z" by (simp add: z_def ulp_pos less_imp_le)
  have x: "x = sgn x * (z * ulp x)"
    using ulp_pos[of x] by (simp add: z_def sgn_if)
  have "nearest x - x = sgn x * ((real (round_half_even z) - z) * ulp x)"
    unfolding nearest_def z_def[symmetric] by (subst (2) x) (simp add: algebra_simps)
  then have "\<bar>nearest x - x\<bar> = \<bar>sgn x\<bar> * (\<bar>real (round_half_even z) - z\<bar> * ulp x)"
    using ulp_pos[of x] by (simp add: abs_mult)
  also have "\<dots> \<le> 1 * (1 / 2 * ulp x)"
    using round_half_even_near[OF z] ulp_pos[of x]
    by (intro mult_mono) (auto simp: sgn_if)
  finally show ?thesis by simp
qed

lemma nearest_error: "\<bar>nearest x - x\<bar> \<le> (\<bar>x\<bar> + 1 / 2 ^ 1022) / 2 ^ 53"
proof (cases "x \<noteq> 0 \<and> - 1022 \<le> exponent x")
  case True
  then have "max (exponent x) (- 1022) - 52 = exponent x + (- 52)"
    by simp
  then have "ulp x = pow2 (exponent x) * pow2 (- 52)"
    unfolding ulp_def by (simp only: pow2_add)
  also have "\<dots> \<le> \<bar>x\<bar> * pow2 (- 52)"
    using exponent_lower[of x] True pow2_pos[of "- 52"] by simp
  finally have "ulp x / 2 \<le> \<bar>x\<bar> / 2 ^ 53"
    by (simp add: pow2_def)
  with nearest_half_ulp[of x] show ?thesis
    by (simp add: add_divide_distrib)
next
  case False
  show ?thesis
  proof (cases "x = 0")
    case True
    then show ?thesis by (simp add: nearest_zero)
  next
    case nz: False
    with False have "ulp x = pow2 (- 1074)"
      by (simp add: ulp_def max_def)
    then have half: "ulp x / 2 = 1 / 2 ^ 1022 / 2 ^ 53"
      by (simp add: pow2_def)
    have "1 / 2 ^ 1022 / 2 ^ 53 \<le> (\<bar>x\<bar> + 1 / 2 ^ 1022) / (2 ^ 53 :: real)"
      by (intro divide_right_mono) simp_all
    with nearest_half_ulp[of x] half show ?thesis
      by (simp only:)
  qed
qed

lemma fadd_Finite:
  "fadd x y = Finite r \<Longrightarrow> \<exists>a b. x = Finite a \<and> y = Finite b \<and> r = nearest (a + b)"
  by (cases x; cases y) (auto simp: round64_def Let_def split: if_splits)

lemma halve_Finite: "halve b = Finite h \<Longrightarrow> \<exists>v. b = Finite v \<and> h = nearest (v / 2)"
  by (cases b) (auto simp: round64_def Let_def split: if_splits)

lemma exponent_upper:
  assumes "x \<noteq> 0"
  shows "\<bar>x\<bar> < pow2 (exponent x + 1)"
proof (cases "1 \<le> \<bar>x\<bar>")
  case True
  define n where "n = nat \<lfloor>\<bar>x\<bar>\<rfloor>"
  define L where "L = floorlog 2 n"
  from True have pos: "0 < n" by (simp add: n_def)
  from floorlog_bounds[OF pos, of 2] have "n < 2 ^ L" by (simp add: L_def)
  then have "int n < 2 ^ L"
    by (metis of_nat_less_iff of_nat_numeral of_nat_power)
  then have "\<lfloor>\<bar>x\<bar>\<rfloor> < 2 ^ L" by (simp add: n_def)
  then have "\<bar>x\<bar> < 2 ^ L" by (simp add: floor_less_iff)
  moreover have "exponent x + 1 = int L"
    using True by (simp add: exponent_def n_def L_def)
  ultimately show ?thesis by (simp add: pow2_of_nat)
next
  case False
  define a where "a = \<bar>x\<bar>"
  from False assms have a: "0 < a" "a < 1" by (simp_all add: a_def)
  define m where "m = nat (\<lceil>1 / a\<rceil> - 1)"
  define L where "L = floorlog 2 m"
  from a have big: "1 < 1 / a" by simp
  then have two: "2 \<le> \<lceil>1 / a\<rceil>" by linarith
  then have pos: "0 < m" by (simp add: m_def)
  then have Lpos: "0 < L" by (simp add: L_def floorlog_def)
  from floorlog_bounds[OF pos, of 2] have "2 ^ (L - 1) \<le> m" by (simp add: L_def)
  then have "(2::real) ^ (L - 1) \<le> real m"
    by (metis of_nat_le_iff of_nat_numeral of_nat_power)
  also have "real m < 1 / a"
    using two by (simp add: m_def) linarith
  finally have "a < 1 / 2 ^ (L - 1)"
    using a by (simp add: field_simps)
  moreover have "exponent x + 1 = - int (L - 1)"
    using False Lpos by (simp add: exponent_def L_def m_def a_def)
  ultimately show ?thesis
    by (simp only: pow2_neg_nat a_def)
qed

lemma sum_list_update_real:
  "i < length A \<Longrightarrow> sum_list (A[i := y]) = sum_list A - A ! i + (y::real)"
  using sum_list_iadd[of i A "y - A ! i"] by simp

lemma sum_abs_update:
  "i < length A \<Longrightarrow>
     sum_list (map abs (A[i := y])) = sum_list (map abs A) - \<bar>A ! i\<bar> + \<bar>y::real\<bar>"
  using sum_list_update_real[of i "map abs A" "\<bar>y\<bar>"] by (simp add: map_update)

lemma sum_abs_nonneg: "0 \<le> sum_list (map abs (A::real list))"
  by (induction A) simp_all

lemma nth_le_sum_abs: "i < length A \<Longrightarrow> \<bar>A ! i\<bar> \<le> sum_list (map abs (A::real list))"
proof (induction A arbitrary: i)
  case Nil
  then show ?case by simp
next
  case (Cons x A)
  show ?case
  proof (cases i)
    case 0
    then show ?thesis using sum_abs_nonneg[of A] by simp
  next
    case (Suc k)
    with Cons.prems have "k < length A" by simp
    from Cons.IH[OF this] Suc show ?thesis by simp
  qed
qed

text \<open>
  One bond, that is one halving and two additions, changes the exact total by at most the
  three rounding errors; each is bounded through a quantity that grows by the factor
  \<open>1 + 1 / 2 ^ 53\<close> at most with every operation.
\<close>

lemma rounding_chain:
  fixes W0 W1 W2 W3 d0 d1 d2 :: real
  assumes "W1 \<le> (1 + 1 / 2 ^ 53) * W0" "W2 \<le> (1 + 1 / 2 ^ 53) * W1"
    "W3 \<le> (1 + 1 / 2 ^ 53) * W2"
    "d0 \<le> W0 / 2 ^ 53" "d1 \<le> W1 / 2 ^ 53" "d2 \<le> W2 / 2 ^ 53"
  shows "W3 \<le> (1 + 1 / 2 ^ 53) ^ 3 * W0"
    and "d0 + d1 + d2 \<le> ((1 + 1 / 2 ^ 53) ^ 3 - 1) * W0"
proof -
  define q :: real where "q = 1 + 1 / 2 ^ 53"
  have q: "0 \<le> q" "q - 1 = 1 / 2 ^ 53" by (simp_all add: q_def)
  have w1: "W1 \<le> q * W0" and w2: "W2 \<le> q * W1" and w3: "W3 \<le> q * W2"
    using assms(1-3) by (simp_all add: q_def)
  have w2': "W2 \<le> q * (q * W0)"
    using w2 mult_left_mono[OF w1 q(1)] by linarith
  have w3': "W3 \<le> q * (q * (q * W0))"
    using w3 mult_left_mono[OF w2' q(1)] by linarith
  then show "W3 \<le> (1 + 1 / 2 ^ 53) ^ 3 * W0"
    by (simp add: q_def power3_eq_cube mult.assoc)
  have e0: "d0 \<le> (q - 1) * W0" and e1: "d1 \<le> (q - 1) * W1" and e2: "d2 \<le> (q - 1) * W2"
    using assms(4-6) by (simp_all add: q(2))
  have qm: "0 \<le> q - 1" by (simp add: q(2))
  have "d1 \<le> (q - 1) * (q * W0)"
    using e1 mult_left_mono[OF w1 qm] by linarith
  moreover have "d2 \<le> (q - 1) * (q * (q * W0))"
    using e2 mult_left_mono[OF w2' qm] by linarith
  ultimately have "d0 + d1 + d2 \<le> (q - 1) * W0 + (q - 1) * (q * W0) + (q - 1) * (q * (q * W0))"
    using e0 by linarith
  also have "\<dots> = (q ^ 3 - 1) * W0"
    by (simp add: power3_eq_cube algebra_simps)
  finally show "d0 + d1 + d2 \<le> ((1 + 1 / 2 ^ 53) ^ 3 - 1) * W0"
    by (simp only: q_def)
qed

lemma bond_step:
  fixes A :: "real list"
  assumes i: "i < length A" and j: "j < length A"
    and R: "3 / 2 ^ 1022 \<le> R"
    and h: "h = nearest (v / 2)"
    and A1: "A1 = A[i := nearest (A ! i + h)]"
    and A2: "A2 = A1[j := nearest (A1 ! j + h)]"
  shows "sum_list (map abs A2) + (R - 3 / 2 ^ 1022)
           \<le> (1 + 1 / 2 ^ 53) ^ 3 * (sum_list (map abs A) + \<bar>v\<bar> + R)"
    and "\<bar>sum_list A2 - (sum_list A + v)\<bar>
           \<le> ((1 + 1 / 2 ^ 53) ^ 3 - 1) * (sum_list (map abs A) + \<bar>v\<bar> + R)"
proof -
  define N where "N = sum_list (map abs A)"
  define N1 where "N1 = sum_list (map abs A1)"
  define N2 where "N2 = sum_list (map abs A2)"
  define V where "V = \<bar>v\<bar>"
  define H where "H = \<bar>h\<bar>"
  define x1 where "x1 = nearest (A ! i + h)"
  define x2 where "x2 = nearest (A1 ! j + h)"
  define e1 where "e1 = \<bar>x1 - (A ! i + h)\<bar>"
  define e2 where "e2 = \<bar>x2 - (A1 ! j + h)\<bar>"
  define d0 where "d0 = \<bar>2 * h - v\<bar>"
  define m1 where "m1 = \<bar>A ! i\<bar>"
  define m2 where "m2 = \<bar>A1 ! j\<bar>"
  define c :: real where "c = 1 / 2 ^ 1022"
  have c: "0 \<le> c" by (simp add: c_def)
  have R': "3 * c \<le> R" using R by (simp add: c_def)
  have j1: "j < length A1" using j by (simp add: A1)
  have N: "0 \<le> N" unfolding N_def by (rule sum_abs_nonneg)
  have V: "0 \<le> V" by (simp add: V_def)
  have H0: "0 \<le> H" by (simp add: H_def)
  have m1: "0 \<le> m1" "m1 \<le> N"
    using nth_le_sum_abs[OF i] by (simp_all add: m1_def N_def)
  have m2: "0 \<le> m2" "m2 \<le> N1"
    using nth_le_sum_abs[OF j1] by (simp_all add: m2_def N1_def)
  have eh: "\<bar>h - v / 2\<bar> \<le> (V / 2 + c) / 2 ^ 53"
    using nearest_error[of "v / 2"] by (simp add: h V_def c_def)
  have Hb: "H \<le> V / 2 + (V / 2 + c) / 2 ^ 53"
    using eh unfolding H_def V_def by linarith
  have d0: "d0 \<le> 2 * ((V / 2 + c) / 2 ^ 53)"
    using eh unfolding d0_def by linarith
  have e1: "e1 \<le> (m1 + H + c) / 2 ^ 53"
  proof -
    have "e1 \<le> (\<bar>A ! i + h\<bar> + c) / 2 ^ 53"
      using nearest_error[of "A ! i + h"] by (simp add: e1_def x1_def c_def)
    also have "\<dots> \<le> (m1 + H + c) / 2 ^ 53"
      by (intro divide_right_mono) (simp_all add: m1_def H_def)
    finally show ?thesis .
  qed
  have e2: "e2 \<le> (m2 + H + c) / 2 ^ 53"
  proof -
    have "e2 \<le> (\<bar>A1 ! j + h\<bar> + c) / 2 ^ 53"
      using nearest_error[of "A1 ! j + h"] by (simp add: e2_def x2_def c_def)
    also have "\<dots> \<le> (m2 + H + c) / 2 ^ 53"
      by (intro divide_right_mono) (simp_all add: m2_def H_def)
    finally show ?thesis .
  qed
  have N1: "N1 \<le> N + H + e1"
  proof -
    have "N1 = N - m1 + \<bar>x1\<bar>"
      unfolding N1_def N_def m1_def A1 x1_def using i by (rule sum_abs_update)
    moreover have "\<bar>x1\<bar> \<le> m1 + H + e1"
      unfolding m1_def H_def e1_def by linarith
    ultimately show ?thesis by linarith
  qed
  have N2: "N2 \<le> N1 + H + e2"
  proof -
    have "N2 = N1 - m2 + \<bar>x2\<bar>"
      unfolding N2_def N1_def m2_def A2 x2_def using j1 by (rule sum_abs_update)
    moreover have "\<bar>x2\<bar> \<le> m2 + H + e2"
      unfolding m2_def H_def e2_def by linarith
    ultimately show ?thesis by linarith
  qed
  define W0 where "W0 = N + V + R"
  define W1 where "W1 = N + 2 * H + (R - c)"
  define W2 where "W2 = N1 + H + (R - 2 * c)"
  define W3 where "W3 = N2 + (R - 3 * c)"
  have s1: "W1 \<le> (1 + 1 / 2 ^ 53) * W0" "d0 \<le> W0 / 2 ^ 53"
    using Hb d0 R' N V c unfolding W0_def W1_def by (simp_all add: field_simps)
  have s2: "W2 \<le> (1 + 1 / 2 ^ 53) * W1" "e1 \<le> W1 / 2 ^ 53"
    using N1 e1 m1 R' H0 c N unfolding W1_def W2_def by (simp_all add: field_simps)
  have s3: "W3 \<le> (1 + 1 / 2 ^ 53) * W2" "e2 \<le> W2 / 2 ^ 53"
    using N2 e2 m2 R' H0 c unfolding W2_def W3_def by (simp_all add: field_simps)
  from rounding_chain[OF s1(1) s2(1) s3(1) s1(2) s2(2) s3(2)]
  have r1: "W3 \<le> (1 + 1 / 2 ^ 53) ^ 3 * W0"
    and r2: "d0 + e1 + e2 \<le> ((1 + 1 / 2 ^ 53) ^ 3 - 1) * W0" .
  from r1 show "sum_list (map abs A2) + (R - 3 / 2 ^ 1022)
           \<le> (1 + 1 / 2 ^ 53) ^ 3 * (sum_list (map abs A) + \<bar>v\<bar> + R)"
    by (simp only: W3_def W0_def N2_def N_def V_def c_def)
  have S1: "sum_list A1 = sum_list A - A ! i + x1"
    unfolding A1 x1_def using i by (rule sum_list_update_real)
  have S2: "sum_list A2 = sum_list A1 - A1 ! j + x2"
    unfolding A2 x2_def using j1 by (rule sum_list_update_real)
  have "sum_list A2 - (sum_list A + v) = (2 * h - v) + (x1 - (A ! i + h)) + (x2 - (A1 ! j + h))"
    by (simp add: S1 S2)
  then have "\<bar>sum_list A2 - (sum_list A + v)\<bar> \<le> d0 + e1 + e2"
    unfolding d0_def e1_def e2_def by linarith
  with r2 show "\<bar>sum_list A2 - (sum_list A + v)\<bar>
           \<le> ((1 + 1 / 2 ^ 53) ^ 3 - 1) * (sum_list (map abs A) + \<bar>v\<bar> + R)"
    by (simp only: W0_def N_def V_def)
qed

lemma finite_val: "is_finite x \<Longrightarrow> x = Finite (val x)"
  by (cases x) simp_all

lemma finite_update:
  assumes "list_all is_finite (a[i := y])" and "is_finite (a ! i)"
  shows "list_all is_finite a"
  unfolding list_all_length
proof (intro allI impI)
  fix k assume k: "k < length a"
  show "is_finite (a ! k)"
  proof (cases "k = i")
    case True
    with assms(2) show ?thesis by simp
  next
    case False
    with assms(1) k show ?thesis
      by (auto simp: list_all_length dest!: spec[of _ k])
  qed
qed

lemma fadd_step:
  assumes i: "i < length a" and fin: "list_all is_finite (a[i := fadd (a ! i) d])"
  shows "list_all is_finite a" and "is_finite d"
    and "map val (a[i := fadd (a ! i) d]) = (map val a)[i := nearest (map val a ! i + val d)]"
proof -
  from fin i have "is_finite (fadd (a ! i) d)"
    by (auto simp: list_all_length dest!: spec[of _ i])
  then obtain r where "fadd (a ! i) d = Finite r"
    by (cases "fadd (a ! i) d") simp_all
  from fadd_Finite[OF this] this obtain x y where
    xy: "a ! i = Finite x" "d = Finite y" "fadd (a ! i) d = Finite (nearest (x + y))"
    by auto
  from xy(2) show "is_finite d" by simp
  from xy(1) have "is_finite (a ! i)" by simp
  with fin show "list_all is_finite a" by (rule finite_update)
  show "map val (a[i := fadd (a ! i) d]) = (map val a)[i := nearest (map val a ! i + val d)]"
    using i xy by (simp add: map_update)
qed

lemma aggregate64_conserves:
  assumes "aggregate64 (FArr1 a) zs = Inr (FArr1 after)" and "list_all is_finite after"
  shows "list_all is_finite a \<and> list_all is_finite (map snd zs) \<and>
         \<bar>sum_list (map val after) - (sum_list (map val a) + sum_list (map (val \<circ> snd) zs))\<bar>
           \<le> ((1 + 1 / 2 ^ 53) ^ (3 * length zs) - 1) *
               (sum_list (map (abs \<circ> val) a) + sum_list (map (abs \<circ> val \<circ> snd) zs) +
                3 * real (length zs) / 2 ^ 1022)"
  using assms
proof (induction zs arbitrary: a)
  case Nil
  then show ?case by simp
next
  case (Cons z zs)
  obtain i j b where z: "z = ((i, j), b)" by (metis prod.exhaust)
  define a1 where "a1 = a[i := fadd (a ! i) (halve b)]"
  define a2 where "a2 = a1[j := fadd (a1 ! j) (halve b)]"
  from Cons.prems(1) have i: "i < length a" and j: "j < length a"
    and rest: "aggregate64 (FArr1 a2) zs = Inr (FArr1 after)"
    by (auto simp: z a1_def a2_def split: if_splits)
  have j1: "j < length a1" using j by (simp add: a1_def)
  note IH = Cons.IH[OF rest Cons.prems(2)]
  from IH have fin2: "list_all is_finite a2" and finz: "list_all is_finite (map snd zs)"
    by simp_all
  from fadd_step[OF j1 fin2[unfolded a2_def]]
  have fin1: "list_all is_finite a1" and finh: "is_finite (halve b)"
    and v2: "map val a2 = (map val a1)[j := nearest (map val a1 ! j + val (halve b))]"
    by (simp_all add: a2_def)
  from fadd_step[OF i fin1[unfolded a1_def]]
  have fin0: "list_all is_finite a"
    and v1: "map val a1 = (map val a)[i := nearest (map val a ! i + val (halve b))]"
    by (simp_all add: a1_def)
  from finh obtain h where "halve b = Finite h" by (cases "halve b") simp_all
  from halve_Finite[OF this] this obtain v where
    b: "b = Finite v" and h: "val (halve b) = nearest (v / 2)"
    by auto
  define A where "A = map val a"
  define B where "B = sum_list (map (abs \<circ> val \<circ> snd) zs)"
  define R where "R = B + 3 * real (length (z # zs)) / 2 ^ 1022"
  define G :: real where "G = (1 + 1 / 2 ^ 53) ^ (3 * length zs)"
  define K :: real where "K = (1 + 1 / 2 ^ 53) ^ 3"
  define W0 where "W0 = sum_list (map abs A) + \<bar>v\<bar> + R"
  have B: "0 \<le> B" unfolding B_def by (rule sum_list_nonneg) auto
  have R: "3 / 2 ^ 1022 \<le> R"
  proof -
    have "(3::real) / 2 ^ 1022 \<le> 3 * real (length (z # zs)) / 2 ^ 1022"
      by (intro divide_right_mono) simp_all
    with B show ?thesis unfolding R_def by linarith
  qed
  have iA: "i < length A" and jA: "j < length A" using i j by (simp_all add: A_def)
  define hh where "hh = val (halve b)"
  define A1 where "A1 = map val a1"
  define A2 where "A2 = map val a2"
  have hh: "hh = nearest (v / 2)" by (simp add: hh_def h)
  have hA1: "A1 = A[i := nearest (A ! i + hh)]"
    unfolding A1_def A_def hh_def by (rule v1)
  have hA2: "A2 = A1[j := nearest (A1 ! j + hh)]"
    unfolding A2_def A1_def hh_def by (rule v2)
  from bond_step[OF iA jA R hh hA1 hA2]
  have st1: "sum_list (map abs (map val a2)) + (R - 3 / 2 ^ 1022) \<le> K * W0"
    and st2: "\<bar>sum_list (map val a2) - (sum_list A + v)\<bar> \<le> (K - 1) * W0"
    unfolding K_def W0_def A2_def by simp_all
  have Rrest: "R - 3 / 2 ^ 1022 = B + 3 * real (length zs) / 2 ^ 1022"
    by (simp add: R_def add_divide_distrib algebra_simps)
  have G1: "1 \<le> G" unfolding G_def by (rule one_le_power) simp
  from IH have ih: "\<bar>sum_list (map val after) - (sum_list (map val a2) + sum_list (map (val \<circ> snd) zs))\<bar>
      \<le> (G - 1) * (sum_list (map abs (map val a2)) + (R - 3 / 2 ^ 1022))"
    unfolding G_def Rrest B_def by (simp add: comp_def add.assoc)
  also have "\<dots> \<le> (G - 1) * (K * W0)"
    using st1 G1 by (intro mult_left_mono) simp_all
  finally have tail: "\<bar>sum_list (map val after) - (sum_list (map val a2) + sum_list (map (val \<circ> snd) zs))\<bar>
      \<le> (G - 1) * (K * W0)" .
  have "\<bar>sum_list (map val after) - (sum_list A + sum_list (map (val \<circ> snd) (z # zs)))\<bar>
      \<le> \<bar>sum_list (map val after) - (sum_list (map val a2) + sum_list (map (val \<circ> snd) zs))\<bar>
        + \<bar>sum_list (map val a2) - (sum_list A + v)\<bar>"
    by (simp add: z b) 
  also have "\<dots> \<le> (G - 1) * (K * W0) + (K - 1) * W0"
    using tail st2 by linarith
  also have "\<dots> = (G * K - 1) * W0"
    by (simp add: algebra_simps)
  also have "G * K = (1 + 1 / 2 ^ 53) ^ (3 * length (z # zs))"
    by (simp add: G_def K_def power_add[symmetric])
  finally have bound: "\<bar>sum_list (map val after) - (sum_list A + sum_list (map (val \<circ> snd) (z # zs)))\<bar>
      \<le> ((1 + 1 / 2 ^ 53) ^ (3 * length (z # zs)) - 1) * W0" .
  have W0: "W0 = sum_list (map (abs \<circ> val) a) + sum_list (map (abs \<circ> val \<circ> snd) (z # zs)) +
                3 * real (length (z # zs)) / 2 ^ 1022"
    by (simp add: W0_def R_def B_def A_def z b comp_def)
  have finb: "list_all is_finite (map snd (z # zs))"
    using finz by (simp add: z b)
  from fin0 finb bound show ?case
    unfolding W0 A_def by (intro conjI)
qed

lemmas float64_defs =
  round64_def nearest_def ulp_def exponent_def pow2_def compute_floorlog round_half_even_def
  Let_def

lemma aggregate64_FArr1:
  "list_all (\<lambda>((i, j), b). i < length xs \<and> j < length xs) zs \<Longrightarrow>
   \<exists>ys. aggregate64 (FArr1 xs) zs = Inr (FArr1 ys) \<and> length ys = length xs \<and>
     (\<forall>k<length xs. ys ! k =
        foldl (\<lambda>acc ((i, j), b).
                 let acc1 = (if i = k then fadd acc (halve b) else acc)
                 in if j = k then fadd acc1 (halve b) else acc1) (xs ! k) zs)"
proof (induction zs arbitrary: xs)
  case Nil
  then show ?case by simp
next
  case (Cons z zs)
  obtain i j b where z: "z = ((i, j), b)" by (metis prod.exhaust)
  from Cons.prems z have i: "i < length xs" and j: "j < length xs"
    and rest: "list_all (\<lambda>((i, j), b). i < length xs \<and> j < length xs) zs"
    by simp_all
  define xs1 where "xs1 = xs[i := fadd (xs ! i) (halve b)]"
  define xs2 where "xs2 = xs1[j := fadd (xs1 ! j) (halve b)]"
  have len: "length xs2 = length xs" by (simp add: xs2_def xs1_def)
  have step: "aggregate64 (FArr1 xs) (z # zs) = aggregate64 (FArr1 xs2) zs"
    using i j by (simp add: z xs2_def xs1_def)
  from rest len have "list_all (\<lambda>((i, j), b). i < length xs2 \<and> j < length xs2) zs" by simp
  from Cons.IH[OF this] obtain ys where ys: "aggregate64 (FArr1 xs2) zs = Inr (FArr1 ys)"
    "length ys = length xs2"
    "\<forall>k<length xs2. ys ! k =
        foldl (\<lambda>acc ((i, j), b).
                 let acc1 = (if i = k then fadd acc (halve b) else acc)
                 in if j = k then fadd acc1 (halve b) else acc1) (xs2 ! k) zs" by blast
  have nth2: "xs2 ! k = (let acc1 = (if i = k then fadd (xs ! k) (halve b) else xs ! k)
                         in if j = k then fadd acc1 (halve b) else acc1)"
    if "k < length xs" for k
    using that i j by (auto simp: xs2_def xs1_def Let_def nth_list_update)
  have nth: "\<forall>k<length xs. ys ! k =
        foldl (\<lambda>acc ((i, j), b).
                 let acc1 = (if i = k then fadd acc (halve b) else acc)
                 in if j = k then fadd acc1 (halve b) else acc1) (xs ! k) (z # zs)"
    using ys(3) len nth2 by (simp add: z)
  have res: "aggregate64 (FArr1 xs) (z # zs) = Inr (FArr1 ys)"
    using step ys(1) by simp
  have leny: "length ys = length xs"
    using ys(2) len by simp
  show ?case
    by (rule exI[of _ ys]) (intro conjI res leny nth)
qed

text \<open>
  Claim C4 fails on its own example in float64 arithmetic: the middle atom receives the
  rounded sum of the float64 values of 0.1 and 0.2, which is 0.30000000000000004 and not
  the float64 value of 0.3.
\<close>

theorem exact_example_counterexample:
  "aggregate_molecule64 ex_MolFromSmiles [FArr1 [Finite 0, Finite 0, Finite 0]]
       (Some [[round64 0.2, round64 0.4]]) 0 ''CCC''
     = Inr (FArr1 [round64 0.1, Finite (1351079888211149 / 2 ^ 52), round64 0.2],
            [FArr1 [round64 0.1, Finite (1351079888211149 / 2 ^ 52), round64 0.2]]) \<and>
   Finite (1351079888211149 / 2 ^ 52) \<noteq> round64 0.3"
  by (simp add: aggregate_molecule64_def ex_MolFromSmiles_def propane_def float64_defs)

text \<open>
  Claim C4, amended. For a molecule whose float64 importance vector has one score per atom,
  whose bond list is as long as its bond importance vector and whose bond ends are atom
  indices, the aggregation returns (and leaves in the caller's list) the vector in which
  every atom \<open>k\<close> has gained, in bond order, the half \<open>b / 2\<close> of each bond that starts at
  \<open>k\<close> and of each bond that ends at \<open>k\<close>, every addition and halving rounded to float64.
  For three atoms of importance 0.0 and the bonds \<open>(0, 1)\<close> of importance 0.2 and \<open>(1, 2)\<close>
  of importance 0.4 the result is \<open>[0.1, 0.30000000000000004, 0.2]\<close>. When the bond
  importance is absent the atom vector is returned as it is.
\<close>

theorem aggregation_adds_rounded_halves:
  "(idx < length atom_importance \<and> idx < length bond_imps \<and> MolFromSmiles smiles = Some m \<and>
    atom_importance ! idx = FArr1 atom_imp \<and> length atom_imp = GetNumAtoms m \<and>
    length (GetBonds m) = length (bond_imps ! idx) \<and>
    (\<forall>(i, j)\<in>set (GetBonds m). i < GetNumAtoms m \<and> j < GetNumAtoms m)
    \<longrightarrow> (\<exists>after.
          aggregate_molecule64 MolFromSmiles atom_importance (Some bond_imps) idx smiles
            = Inr (FArr1 after, atom_importance[idx := FArr1 after]) \<and>
          length after = length atom_imp \<and>
          (\<forall>k<length atom_imp. after ! k =
             foldl (\<lambda>acc ((i, j), b).
                      let acc1 = (if i = k then fadd acc (halve b) else acc)
                      in if j = k then fadd acc1 (halve b) else acc1)
               (atom_imp ! k) (zip (GetBonds m) (bond_imps ! idx)))))
   \<and> aggregate_molecule64 ex_MolFromSmiles [FArr1 [Finite 0, Finite 0, Finite 0]]
       (Some [[round64 0.2, round64 0.4]]) 0 ''CCC''
       = Inr (FArr1 [round64 0.1, Finite (1351079888211149 / 2 ^ 52), round64 0.2],
              [FArr1 [round64 0.1, Finite (1351079888211149 / 2 ^ 52), round64 0.2]])
   \<and> (idx < length atom_importance
      \<longrightarrow> aggregate_molecule64 MolFromSmiles atom_importance None idx smiles
            = Inr (atom_importance ! idx, atom_importance))"
proof (intro conjI impI)
  assume h: "idx < length atom_importance \<and> idx < length bond_imps \<and> MolFromSmiles smiles = Some m \<and>
    atom_importance ! idx = FArr1 atom_imp \<and> length atom_imp = GetNumAtoms m \<and>
    length (GetBonds m) = length (bond_imps ! idx) \<and>
    (\<forall>(i, j)\<in>set (GetBonds m). i < GetNumAtoms m \<and> j < GetNumAtoms m)"
  then have "list_all (\<lambda>((i, j), b). i < length atom_imp \<and> j < length atom_imp)
      (zip (GetBonds m) (bond_imps ! idx))"
    by (auto simp: list_all_iff dest: set_zip_leftD)
  from aggregate64_FArr1[OF this] obtain after where
    after: "aggregate64 (FArr1 atom_imp) (zip (GetBonds m) (bond_imps ! idx)) = Inr (FArr1 after)"
    "length after = length atom_imp"
    "\<forall>k<length atom_imp. after ! k =
             foldl (\<lambda>acc ((i, j), b).
                      let acc1 = (if i = k then fadd acc (halve b) else acc)
                      in if j = k then fadd acc1 (halve b) else acc1)
               (atom_imp ! k) (zip (GetBonds m) (bond_imps ! idx))"
    by blast
  have res: "aggregate_molecule64 MolFromSmiles atom_importance (Some bond_imps) idx smiles
            = Inr (FArr1 after, atom_importance[idx := FArr1 after])"
    using h after(1) by (simp add: aggregate_molecule64_def)
  show "\<exists>after.
          aggregate_molecule64 MolFromSmiles atom_importance (Some bond_imps) idx smiles
            = Inr (FArr1 after, atom_importance[idx := FArr1 after]) \<and>
          length after = length atom_imp \<and>
          (\<forall>k<length atom_imp. after ! k =
             foldl (\<lambda>acc ((i, j), b).
                      let acc1 = (if i = k then fadd acc (halve b) else acc)
                      in if j = k then fadd acc1 (halve b) else acc1)
               (atom_imp ! k) (zip (GetBonds m) (bond_imps ! idx)))"
    by (rule exI[of _ after]) (intro conjI res after(2) after(3))
next
  show "aggregate_molecule64 ex_MolFromSmiles [FArr1 [Finite 0, Finite 0, Finite 0]]
       (Some [[round64 0.2, round64 0.4]]) 0 ''CCC''
       = Inr (FArr1 [round64 0.1, Finite (1351079888211149 / 2 ^ 52), round64 0.2],
              [FArr1 [round64 0.1, Finite (1351079888211149 / 2 ^ 52), round64 0.2]])"
    by (simp add: aggregate_molecule64_def ex_MolFromSmiles_def propane_def float64_defs)
next
  assume "idx < length atom_importance"
  then show "aggregate_molecule64 MolFromSmiles atom_importance None idx smiles
            = Inr (atom_importance ! idx, atom_importance)"
    by (simp add: aggregate_molecule64_def)
qed

theorem aggregation_adds_rounded_halves_witness:
  "ex_MolFromSmiles ''CCC'' = Some propane \<and>
   length [Finite 1, Finite 2, Finite 3] = GetNumAtoms propane \<and>
   length (GetBonds propane) = length ([[Finite 2, Finite 4]] ! 0) \<and>
   list_all (\<lambda>(i, j). i < GetNumAtoms propane \<and> j < GetNumAtoms propane) (GetBonds propane) \<and>
   (\<exists>after. aggregate_molecule64 ex_MolFromSmiles [FArr1 [Finite 1, Finite 2, Finite 3]]
         (Some [[Finite 2, Finite 4]]) 0 ''CCC''
        = Inr (FArr1 after, [FArr1 after]) \<and> length after = 3 \<and>
      after ! 1 = fadd (fadd (Finite 2) (halve (Finite 2))) (halve (Finite 4))) \<and>
   aggregate_molecule64 ex_MolFromSmiles [FArr1 [Finite 1, Finite 2, Finite 3]] None 0 ''CCC''
     = Inr (FArr1 [Finite 1, Finite 2, Finite 3], [FArr1 [Finite 1, Finite 2, Finite 3]])"
  using aggregation_adds_rounded_halves
    [where idx = 0 and atom_importance = "[FArr1 [Finite 1, Finite 2, Finite 3]]"
       and bond_imps = "[[Finite 2, Finite 4]]"
       and MolFromSmiles = ex_MolFromSmiles and smiles = "''CCC''" and m = propane
       and atom_imp = "[Finite 1, Finite 2, Finite 3]"]
  by (auto simp add: ex_MolFromSmiles_def propane_def simp del: fadd.simps halve.simps)

text \<open>
  Claim C5 fails in float64 arithmetic. Three atoms of importance 0.0 and the bonds of
  propane with the importances 0.2 and 0.1: the sum after the aggregation differs from the
  sum before plus the sum of the bond importances, whether the sums are taken exactly or
  in float64 from left to right, as Python's \<^verbatim>\<open>sum\<close> does.
\<close>

theorem rounded_sum_counterexample:
  "aggregate_molecule64 ex_MolFromSmiles [FArr1 [Finite 0, Finite 0, Finite 0]]
       (Some [[round64 0.2, round64 0.1]]) 0 ''CCC''
     = Inr (FArr1 [Finite (3602879701896397 / 2 ^ 55), Finite (1351079888211149 / 2 ^ 53),
                   Finite (3602879701896397 / 2 ^ 56)],
            [FArr1 [Finite (3602879701896397 / 2 ^ 55), Finite (1351079888211149 / 2 ^ 53),
                    Finite (3602879701896397 / 2 ^ 56)]]) \<and>
   sum_list (map val [Finite (3602879701896397 / 2 ^ 55), Finite (1351079888211149 / 2 ^ 53),
                      Finite (3602879701896397 / 2 ^ 56)])
     \<noteq> sum_list (map val [Finite 0, Finite 0, Finite 0])
         + sum_list (map val [round64 0.2, round64 0.1]) \<and>
   foldl fadd (Finite 0) [Finite (3602879701896397 / 2 ^ 55), Finite (1351079888211149 / 2 ^ 53),
                          Finite (3602879701896397 / 2 ^ 56)]
     \<noteq> fadd (foldl fadd (Finite 0) [Finite 0, Finite 0, Finite 0])
            (foldl fadd (Finite 0) [round64 0.2, round64 0.1])"
  by (simp add: aggregate_molecule64_def ex_MolFromSmiles_def propane_def float64_defs)

text \<open>
  Claim C5, amended. For a molecule whose bond list is as long as its bond importance
  vector, when the aggregation returns a one-dimensional vector of finite float64 values,
  the total is conserved up to rounding: with \<open>n\<close> bonds, the exact sum after differs
  from the exact sum before plus the exact sum of the bond importances by at most
  \<^verbatim>\<open>((1 + 2^-53)^(3n) - 1) * (sum |before| + sum |bond importances| + 3n * 2^-1022)\<close>.
  All the inputs are then finite, and the caller's list holds the aggregated vector.
\<close>

theorem aggregation_conserves_total_up_to_rounding:
  assumes mol: "MolFromSmiles smiles = Some m"
    and vec: "atom_importance ! idx = FArr1 atom_imp"
    and len: "length (GetBonds m) = length (bond_imps ! idx)"
    and res: "aggregate_molecule64 MolFromSmiles atom_importance (Some bond_imps) idx smiles
                = Inr (FArr1 after, caller)"
    and fin: "list_all is_finite after"
  shows "\<bar>sum_list (map val after)
            - (sum_list (map val atom_imp) + sum_list (map val (bond_imps ! idx)))\<bar>
           \<le> ((1 + 1 / 2 ^ 53) ^ (3 * length (bond_imps ! idx)) - 1) *
               (sum_list (map (abs \<circ> val) atom_imp) +
                sum_list (map (abs \<circ> val) (bond_imps ! idx)) +
                3 * real (length (bond_imps ! idx)) / 2 ^ 1022) \<and>
         list_all is_finite atom_imp \<and> list_all is_finite (bond_imps ! idx) \<and>
         caller = atom_importance[idx := FArr1 after]"
proof -
  let ?zs = "zip (GetBonds m) (bond_imps ! idx)"
  from res mol vec have agg: "aggregate64 (FArr1 atom_imp) ?zs = Inr (FArr1 after)"
    and caller: "caller = atom_importance[idx := FArr1 after]"
    by (auto simp: aggregate_molecule64_def split: if_splits sum.splits)
  have snd: "map snd ?zs = bond_imps ! idx"
    using len by simp
  have "map (val \<circ> snd) ?zs = map val (map snd ?zs)"
    and "map (abs \<circ> val \<circ> snd) ?zs = map (abs \<circ> val) (map snd ?zs)"
    by simp_all
  then have maps: "map (val \<circ> snd) ?zs = map val (bond_imps ! idx)"
    "map (abs \<circ> val \<circ> snd) ?zs = map (abs \<circ> val) (bond_imps ! idx)"
    by (simp_all only: snd)
  have n: "length ?zs = length (bond_imps ! idx)"
    using len by simp
  from aggregate64_conserves[OF agg fin] caller show ?thesis
    unfolding maps n snd by simp
qed

theorem aggregation_conserves_total_up_to_rounding_witness:
  "ex_MolFromSmiles ''CCC'' = Some propane \<and>
   [FArr1 [Finite 0, Finite 0, Finite 0]] ! 0 = FArr1 [Finite 0, Finite 0, Finite 0] \<and>
   length (GetBonds propane) = length ([[round64 0.2, round64 0.1]] ! 0) \<and>
   aggregate_molecule64 ex_MolFromSmiles [FArr1 [Finite 0, Finite 0, Finite 0]]
       (Some [[round64 0.2, round64 0.1]]) 0 ''CCC''
     = Inr (FArr1 [Finite (3602879701896397 / 2 ^ 55), Finite (1351079888211149 / 2 ^ 53),
                   Finite (3602879701896397 / 2 ^ 56)],
            [FArr1 [Finite (3602879701896397 / 2 ^ 55), Finite (1351079888211149 / 2 ^ 53),
                    Finite (3602879701896397 / 2 ^ 56)]]) \<and>
   list_all is_finite [Finite (3602879701896397 / 2 ^ 55), Finite (1351079888211149 / 2 ^ 53),
                       Finite (3602879701896397 / 2 ^ 56)] \<and>
   \<bar>sum_list (map val [Finite (3602879701896397 / 2 ^ 55), Finite (1351079888211149 / 2 ^ 53),
                        Finite (3602879701896397 / 2 ^ 56)])
      - (sum_list (map val [Finite 0, Finite 0, Finite 0])
         + sum_list (map val ([[round64 0.2, round64 0.1]] ! 0)))\<bar>
     \<le> ((1 + 1 / 2 ^ 53) ^ (3 * length ([[round64 0.2, round64 0.1]] ! 0)) - 1) *
         (sum_list (map (abs \<circ> val) [Finite 0, Finite 0, Finite 0]) +
          sum_list (map (abs \<circ> val) ([[round64 0.2, round64 0.1]] ! 0)) +
          3 * real (length ([[round64 0.2, round64 0.1]] ! 0)) / 2 ^ 1022) \<and>
   sum_list (map val [Finite (3602879701896397 / 2 ^ 55), Finite (1351079888211149 / 2 ^ 53),
                      Finite (3602879701896397 / 2 ^ 56)])
      - (sum_list (map val [Finite 0, Finite 0, Finite 0])
         + sum_list (map val [round64 0.2, round64 0.1])) = 1 / 2 ^ 56"
proof -
  have mol: "ex_MolFromSmiles ''CCC'' = Some propane"
    by (simp add: ex_MolFromSmiles_def)
  have vec: "[FArr1 [Finite 0, Finite 0, Finite 0]] ! 0 = FArr1 [Finite 0, Finite 0, Finite 0]"
    by simp
  have len: "length (GetBonds propane) = length ([[round64 0.2, round64 0.1]] ! 0)"
    by (simp add: propane_def)
  have res: "aggregate_molecule64 ex_MolFromSmiles [FArr1 [Finite 0, Finite 0, Finite 0]]
       (Some [[round64 0.2, round64 0.1]]) 0 ''CCC''
     = Inr (FArr1 [Finite (3602879701896397 / 2 ^ 55), Finite (1351079888211149 / 2 ^ 53),
                   Finite (3602879701896397 / 2 ^ 56)],
            [FArr1 [Finite (3602879701896397 / 2 ^ 55), Finite (1351079888211149 / 2 ^ 53),
                    Finite (3602879701896397 / 2 ^ 56)]])"
    by (simp add: aggregate_molecule64_def ex_MolFromSmiles_def propane_def float64_defs)
  have fin: "list_all is_finite [Finite (3602879701896397 / 2 ^ 55),
      Finite (1351079888211149 / 2 ^ 53), Finite (3602879701896397 / 2 ^ 56)]"
    by simp
  have diff: "sum_list (map val [Finite (3602879701896397 / 2 ^ 55), Finite (1351079888211149 / 2 ^ 53),
                      Finite (3602879701896397 / 2 ^ 56)])
      - (sum_list (map val [Finite 0, Finite 0, Finite 0])
         + sum_list (map val [round64 0.2, round64 0.1])) = 1 / 2 ^ 56"
    by (simp add: float64_defs)
  note bound = aggregation_conserves_total_up_to_rounding[OF mol vec len res fin, THEN conjunct1]
  from mol vec len res fin bound diff show ?thesis
    by (intro conjI)
qed

end
